theory Spec2Isabelle
  imports Main
begin

section \<open>Timer entity (storage.py, class Timer)\<close>

text \<open>
  The dataclass \<open>Timer\<close>. The fields \<open>id\<close> and \<open>title\<close> carry the suffix
  \<open>_timer\<close> because \<open>id\<close> is a constant of HOL and the class \<open>Todo\<close> has fields of
  the same names. Python's integers are unbounded, hence \<open>int\<close>.
\<close>

record Timer =
  id_timer :: string
  title_timer :: string
  total_seconds :: int
  remaining_seconds :: int
  started_at :: string
  todo_id :: "string option"
  paused :: bool

text \<open>
  \<open>Timer.create\<close>: the identifier (the first eight characters of a fresh uuid) and the
  time stamp (\<open>datetime.now().isoformat()\<close>) come from the environment and are
  parameters here.
\<close>

definition create_timer :: "string \<Rightarrow> string \<Rightarrow> string \<Rightarrow> int \<Rightarrow> string option \<Rightarrow> Timer" where
  "create_timer new_id now title minutes todo =
     (let total = minutes * 60 in
      \<lparr>id_timer = new_id, title_timer = title, total_seconds = total,
       remaining_seconds = total, started_at = now, todo_id = todo, paused = False\<rparr>)"

definition elapsed_seconds :: "Timer \<Rightarrow> int" where
  "elapsed_seconds t = total_seconds t - remaining_seconds t"

definition is_complete :: "Timer \<Rightarrow> bool" where
  "is_complete t = (remaining_seconds t \<le> 0)"

text \<open>
  \<open>Timer.tick\<close> mutates the timer and returns whether it is still running: the model
  returns the timer after the call together with that boolean.
\<close>

definition tick :: "Timer \<Rightarrow> Timer \<times> bool" where
  "tick t =
     (let t' = (if remaining_seconds t > 0 \<and> \<not> paused t
                then t\<lparr>remaining_seconds := remaining_seconds t - 1\<rparr> else t)
      in (t', remaining_seconds t' > 0))"

section \<open>Identifier matching and insertion-ordered dictionaries\<close>

text \<open>\<open>s.startswith(p)\<close> on Python strings.\<close>

fun startswith :: "string \<Rightarrow> string \<Rightarrow> bool" where
  "startswith s [] = True"
| "startswith [] (p # ps) = False"
| "startswith (c # cs) (p # ps) = (c = p \<and> startswith cs ps)"

text \<open>The test \<open>tid == timer_id or tid.startswith(timer_id)\<close> used by every lookup.\<close>

definition matches :: "string \<Rightarrow> string \<Rightarrow> bool" where
  "matches tid wanted = (tid = wanted \<or> startswith tid wanted)"

text \<open>
  A Python \<open>dict\<close> keeps insertion order: it is an association list with distinct keys.
  \<open>d[k] = v\<close> overwrites in place when the key is present and appends otherwise;
  \<open>del d[k]\<close> drops the entry.
\<close>

fun dict_get :: "('k \<times> 'v) list \<Rightarrow> 'k \<Rightarrow> 'v option" where
  "dict_get [] k = None"
| "dict_get ((k', v) # d) k = (if k' = k then Some v else dict_get d k)"

fun dict_set :: "('k \<times> 'v) list \<Rightarrow> 'k \<Rightarrow> 'v \<Rightarrow> ('k \<times> 'v) list" where
  "dict_set [] k v = [(k, v)]"
| "dict_set ((k', v') # d) k v = (if k' = k then (k, v) # d else (k', v') # dict_set d k v)"

fun dict_del :: "('k \<times> 'v) list \<Rightarrow> 'k \<Rightarrow> ('k \<times> 'v) list" where
  "dict_del [] k = []"
| "dict_del ((k', v) # d) k = (if k' = k then dict_del d k else (k', v) # dict_del d k)"

text \<open>
  The loop shared by \<open>get_timer\<close> and \<open>remove_timer\<close>: the first entry, in iteration
  order, whose key matches.
\<close>

fun first_match :: "(string \<times> 'v) list \<Rightarrow> string \<Rightarrow> (string \<times> 'v) option" where
  "first_match [] wanted = None"
| "first_match ((tid, v) # d) wanted =
     (if matches tid wanted then Some (tid, v) else first_match d wanted)"

section \<open>Timer manager (timer.py, class TimerManager)\<close>

text \<open>
  Timers are objects shared between the manager's dictionary and the coroutines that
  count them down, so they live in a store: \<open>heap\<close> is the list of all Timer objects
  ever created and a reference is an index into it. A coroutine \<open>_run_timer(timer)\<close>
  wrapped in an \<open>asyncio.Task\<close> is a record of the timer it holds and of where it
  stands: created but not yet run, suspended in \<open>asyncio.sleep(1)\<close>, returned, or
  cancelled. \<open>pool\<close> is the list of all tasks ever created and a task handle is an
  index into it.
\<close>

datatype pc = Created | Sleeping | Done | Cancelled

record task =
  task_timer :: nat
  task_pc :: pc

text \<open>\<open>Task.done()\<close>: the task has returned or was cancelled.\<close>

definition is_done :: "task \<Rightarrow> bool" where
  "is_done tk = (task_pc tk = Done \<or> task_pc tk = Cancelled)"

text \<open>
  \<open>Task.cancel()\<close>. The coroutine has no handler for the cancellation, so it runs no
  further statement once cancelled; the manager drops the handle in the same
  operation, so it never asks \<open>done()\<close> of a task between the request and its effect.
  The model therefore cancels at once. Cancelling a finished task does nothing.
\<close>

definition cancel :: "task \<Rightarrow> task" where
  "cancel tk = (if is_done tk then tk else tk\<lparr>task_pc := Cancelled\<rparr>)"

text \<open>
  The fields \<open>timers\<close>, \<open>tasks\<close>, \<open>on_tick\<close>, \<open>on_complete\<close> and \<open>running\<close> are those
  of the class; a callback is either registered or \<open>None\<close>, and what it does lies
  outside the manager, so the model keeps whether it is registered and records every
  invocation: \<open>tick_calls\<close> counts the calls of \<open>on_tick\<close>, and \<open>complete_calls\<close>
  lists, for every call of \<open>on_complete\<close>, the task that made it, the reference of the
  timer passed and the state of that timer at the call.
\<close>

record state =
  timers :: "(string \<times> nat) list"
  tasks :: "(string \<times> nat) list"
  on_tick :: bool
  on_complete :: bool
  running :: bool
  heap :: "Timer list"
  pool :: "task list"
  tick_calls :: nat
  complete_calls :: "(nat \<times> nat \<times> Timer) list"

definition init :: state where
  "init = \<lparr>timers = [], tasks = [], on_tick = False, on_complete = False, running = False,
           heap = [], pool = [], tick_calls = 0, complete_calls = []\<rparr>"

definition set_callbacks :: "state \<Rightarrow> bool \<Rightarrow> bool \<Rightarrow> state" where
  "set_callbacks s tick_cb complete_cb = s\<lparr>on_tick := tick_cb, on_complete := complete_cb\<rparr>"

text \<open>\<open>add_timer\<close> returns the new timer: here its reference.\<close>

definition add_timer :: "state \<Rightarrow> string \<Rightarrow> string \<Rightarrow> string \<Rightarrow> int \<Rightarrow> string option \<Rightarrow> state \<times> nat" where
  "add_timer s new_id now title minutes todo =
     (let timer = create_timer new_id now title minutes todo;
          a = length (heap s)
      in (s\<lparr>heap := heap s @ [timer], timers := dict_set (timers s) (id_timer timer) a\<rparr>, a))"

definition get_timer :: "state \<Rightarrow> string \<Rightarrow> nat option" where
  "get_timer s timer_id = map_option snd (first_match (timers s) timer_id)"

definition remove_timer :: "state \<Rightarrow> string \<Rightarrow> state \<times> bool" where
  "remove_timer s timer_id =
     (case first_match (timers s) timer_id of
        None \<Rightarrow> (s, False)
      | Some (target_id, a) \<Rightarrow>
          (let s1 = (case dict_get (tasks s) target_id of
                       None \<Rightarrow> s
                     | Some k \<Rightarrow> s\<lparr>pool := (pool s)[k := cancel (pool s ! k)],
                                   tasks := dict_del (tasks s) target_id\<rparr>)
           in (s1\<lparr>timers := dict_del (timers s1) target_id\<rparr>, True)))"

definition get_all_timers :: "state \<Rightarrow> nat list" where
  "get_all_timers s = map snd (timers s)"

definition get_active_timers :: "state \<Rightarrow> nat list" where
  "get_active_timers s = filter (\<lambda>a. \<not> is_complete (heap s ! a)) (map snd (timers s))"

definition has_active_timers :: "state \<Rightarrow> bool" where
  "has_active_timers s = (length (get_active_timers s) > 0)"

text \<open>
  \<open>start_timer\<close>. The guard looks the \<^emph>\<open>argument\<close> \<open>timer_id\<close> up in \<open>tasks\<close>, while
  the new task is stored under \<open>timer.id\<close>, as in the source.
\<close>

definition spawn :: "state \<Rightarrow> nat \<Rightarrow> state" where
  "spawn s a =
     (let k = length (pool s)
      in s\<lparr>pool := pool s @ [\<lparr>task_timer = a, task_pc = Created\<rparr>],
           tasks := dict_set (tasks s) (id_timer (heap s ! a)) k\<rparr>)"

definition start_timer :: "state \<Rightarrow> string \<Rightarrow> state \<times> bool" where
  "start_timer s timer_id =
     (case get_timer s timer_id of
        None \<Rightarrow> (s, False)
      | Some a \<Rightarrow>
          (case dict_get (tasks s) timer_id of
             None \<Rightarrow> (spawn s a, True)
           | Some k \<Rightarrow> if \<not> is_done (pool s ! k) then (s, False) else (spawn s a, True)))"

text \<open>\<open>pause_timer\<close>: a Timer object is always truthy, so \<open>if timer\<close> asks whether one was found.\<close>

definition pause_timer :: "state \<Rightarrow> string \<Rightarrow> state \<times> bool" where
  "pause_timer s timer_id =
     (case get_timer s timer_id of
        None \<Rightarrow> (s, False)
      | Some a \<Rightarrow> (s\<lparr>heap := (heap s)[a := (heap s ! a)\<lparr>paused := True\<rparr>]\<rparr>, True))"

definition resume_timer :: "state \<Rightarrow> string \<Rightarrow> state \<times> bool" where
  "resume_timer s timer_id =
     (case get_timer s timer_id of
        None \<Rightarrow> (s, False)
      | Some a \<Rightarrow>
          if paused (heap s ! a)
          then (let s1 = s\<lparr>heap := (heap s)[a := (heap s ! a)\<lparr>paused := False\<rparr>]\<rparr>
                in (fst (start_timer s1 (id_timer (heap s1 ! a))), True))
          else (s, False))"

text \<open>
  \<open>start_all\<close> has no suspension point, so it runs as one step. Its loop walks the keys
  of \<open>timers\<close>, which \<open>start_timer\<close> does not change.
\<close>

fun start_all_loop :: "string list \<Rightarrow> state \<Rightarrow> state" where
  "start_all_loop [] s = s"
| "start_all_loop (timer_id # rest) s =
     start_all_loop rest
       (if (case dict_get (tasks s) timer_id of None \<Rightarrow> True | Some k \<Rightarrow> is_done (pool s ! k))
        then fst (start_timer s timer_id) else s)"

definition start_all :: "state \<Rightarrow> state" where
  "start_all s = start_all_loop (map fst (timers s)) (s\<lparr>running := True\<rparr>)"

fun cancel_each :: "nat list \<Rightarrow> task list \<Rightarrow> task list" where
  "cancel_each [] p = p"
| "cancel_each (k # ks) p = cancel_each ks (p[k := cancel (p ! k)])"

definition stop_all :: "state \<Rightarrow> state" where
  "stop_all s = s\<lparr>running := False, pool := cancel_each (map snd (tasks s)) (pool s), tasks := []\<rparr>"

fun cleanup_loop :: "string list \<Rightarrow> state \<Rightarrow> state" where
  "cleanup_loop [] s = s"
| "cleanup_loop (tid # rest) s =
     cleanup_loop rest
       (s\<lparr>tasks := (case dict_get (tasks s) tid of None \<Rightarrow> tasks s | Some k \<Rightarrow> dict_del (tasks s) tid),
          timers := dict_del (timers s) tid\<rparr>)"

definition cleanup_completed :: "state \<Rightarrow> state \<times> int" where
  "cleanup_completed s =
     (let completed_ids = map fst (filter (\<lambda>(tid, a). is_complete (heap s ! a)) (timers s))
      in (cleanup_loop completed_ids s, int (length completed_ids)))"

subsection \<open>The countdown coroutine\<close>

text \<open>
  \<open>_run_timer\<close> from the head of its \<open>while\<close> loop up to its next suspension: either the
  condition holds and the coroutine suspends in \<open>asyncio.sleep(1)\<close>, or the loop is
  left, \<open>on_complete\<close> is called when the timer is complete and a callback is
  registered, and the task returns.
\<close>

definition loop_head :: "state \<Rightarrow> nat \<Rightarrow> state" where
  "loop_head s k =
     (let a = task_timer (pool s ! k); timer = heap s ! a in
      if remaining_seconds timer > 0 \<and> \<not> paused timer
      then s\<lparr>pool := (pool s)[k := (pool s ! k)\<lparr>task_pc := Sleeping\<rparr>]\<rparr>
      else (let s1 = (if is_complete timer \<and> on_complete s
                      then s\<lparr>complete_calls := complete_calls s @ [(k, a, timer)]\<rparr> else s)
            in s1\<lparr>pool := (pool s1)[k := (pool s1 ! k)\<lparr>task_pc := Done\<rparr>]\<rparr>))"

text \<open>
  The event loop resumes task \<open>k\<close>. A task just created starts at the loop head; a task
  whose sleep is over runs \<open>timer.tick()\<close>, calls \<open>on_tick\<close> if registered, and is
  back at the loop head; a finished task is never resumed. Which task is resumed when
  is the scheduler's choice: the model allows every order.
\<close>

definition wake :: "state \<Rightarrow> nat \<Rightarrow> state" where
  "wake s k =
     (if k < length (pool s) then
        (case task_pc (pool s ! k) of
           Created \<Rightarrow> loop_head s k
         | Sleeping \<Rightarrow>
             (let a = task_timer (pool s ! k);
                  s1 = s\<lparr>heap := (heap s)[a := fst (tick (heap s ! a))]\<rparr>;
                  s2 = (if on_tick s1 then s1\<lparr>tick_calls := tick_calls s1 + 1\<rparr> else s1)
              in loop_head s2 k)
         | Done \<Rightarrow> s
         | Cancelled \<Rightarrow> s)
      else s)"

subsection \<open>Runs of the manager\<close>

text \<open>
  Everything that can happen to a manager between two observations: a call of one of
  its operations, or the event loop resuming one countdown coroutine.
\<close>

datatype event =
    SetCallbacks bool bool
  | AddTimer string string string int "string option"
  | RemoveTimer string
  | StartTimer string
  | PauseTimer string
  | ResumeTimer string
  | StartAll
  | StopAll
  | CleanupCompleted
  | Wake nat

fun step :: "state \<Rightarrow> event \<Rightarrow> state" where
  "step s (SetCallbacks tick_cb complete_cb) = set_callbacks s tick_cb complete_cb"
| "step s (AddTimer new_id now title minutes todo) = fst (add_timer s new_id now title minutes todo)"
| "step s (RemoveTimer timer_id) = fst (remove_timer s timer_id)"
| "step s (StartTimer timer_id) = fst (start_timer s timer_id)"
| "step s (PauseTimer timer_id) = fst (pause_timer s timer_id)"
| "step s (ResumeTimer timer_id) = fst (resume_timer s timer_id)"
| "step s StartAll = start_all s"
| "step s StopAll = stop_all s"
| "step s CleanupCompleted = fst (cleanup_completed s)"
| "step s (Wake k) = wake s k"

fun run :: "state \<Rightarrow> event list \<Rightarrow> state" where
  "run s [] = s"
| "run s (e # es) = run (step s e) es"

section \<open>Todo entity and persistence (storage.py, classes Todo and Storage)\<close>

text \<open>
  The dataclass \<open>Todo\<close>, with the types of its annotations; \<open>id\<close> and \<open>title\<close> carry
  the suffix \<open>_todo\<close>.
\<close>

record Todo =
  id_todo :: string
  title_todo :: string
  completed :: bool
  created_at :: string
  completed_at :: "string option"
  timer_minutes :: "int option"

definition create_todo :: "string \<Rightarrow> string \<Rightarrow> string \<Rightarrow> int option \<Rightarrow> Todo" where
  "create_todo new_id now title minutes =
     \<lparr>id_todo = new_id, title_todo = title, completed = False, created_at = now,
      completed_at = None, timer_minutes = minutes\<rparr>"

definition mark_complete :: "string \<Rightarrow> Todo \<Rightarrow> Todo" where
  "mark_complete now todo = todo\<lparr>completed := True, completed_at := Some now\<rparr>"

text \<open>
  The values that \<open>json.load\<close> returns and \<open>json.dump\<close> accepts. A dictionary is an
  association list in key order, its keys distinct; a number that is not an integer
  is kept as its literal.
\<close>

datatype json =
    JNull
  | JBool bool
  | JInt int
  | JFloat string
  | JString string
  | JList "json list"
  | JDict "(string \<times> json) list"

text \<open>\<open>Todo.to_dict\<close>, that is \<open>dataclasses.asdict\<close>: one entry per field, in field order.\<close>

definition to_dict :: "Todo \<Rightarrow> (string \<times> json) list" where
  "to_dict todo =
     [(''id'', JString (id_todo todo)),
      (''title'', JString (title_todo todo)),
      (''completed'', JBool (completed todo)),
      (''created_at'', JString (created_at todo)),
      (''completed_at'', (case completed_at todo of None \<Rightarrow> JNull | Some at \<Rightarrow> JString at)),
      (''timer_minutes'', (case timer_minutes todo of None \<Rightarrow> JNull | Some n \<Rightarrow> JInt n))]"

datatype error = JSONDecodeError | KeyError | TypeError | OSError

text \<open>
  What a call does: it returns a value or raises. Python checks no annotation, so
  \<open>Todo(**data)\<close> with, say, a number under \<open>"id"\<close> returns an object whose \<open>id\<close>
  is a number. The record \<open>Todo\<close> cannot hold such an object; \<open>IllTyped\<close> says that the
  call returned one, rather than inventing a value or an exception for it.
\<close>

datatype 'a outcome = Returns 'a | Raises error | IllTyped

definition field_names :: "string list" where
  "field_names = [''id'', ''title'', ''completed'', ''created_at'', ''completed_at'', ''timer_minutes'']"

fun as_str :: "json \<Rightarrow> string option" where
  "as_str (JString x) = Some x"
| "as_str _ = None"

fun as_bool :: "json \<Rightarrow> bool option" where
  "as_bool (JBool b) = Some b"
| "as_bool _ = None"

fun as_optional_str :: "json \<Rightarrow> string option option" where
  "as_optional_str JNull = Some None"
| "as_optional_str (JString x) = Some (Some x)"
| "as_optional_str _ = None"

fun as_optional_int :: "json \<Rightarrow> int option option" where
  "as_optional_int JNull = Some None"
| "as_optional_int (JInt n) = Some (Some n)"
| "as_optional_int _ = None"

text \<open>
  The generated \<open>__init__(self, id, title, completed=False, created_at=now(),
  completed_at=None, timer_minutes=None)\<close> called with keyword arguments: \<open>given\<close>
  reads one keyword, falling back on the default of the field.
\<close>

definition given :: "(string \<times> json) list \<Rightarrow> string \<Rightarrow> (json \<Rightarrow> 'a option) \<Rightarrow> 'a \<Rightarrow> 'a option" where
  "given data key as_type fallback =
     (case dict_get data key of None \<Rightarrow> Some fallback | Some v \<Rightarrow> as_type v)"

text \<open>
  \<open>Todo.from_dict\<close>, that is \<open>cls(**data)\<close>. It raises \<open>TypeError\<close> when \<open>data\<close> is not
  a mapping, when a key is not the name of a field, and when \<open>id\<close> or \<open>title\<close> is
  missing.
\<close>

fun from_dict :: "string \<Rightarrow> json \<Rightarrow> Todo outcome" where
  "from_dict now (JDict data) =
     (if list_ex (\<lambda>key. key \<notin> set field_names) (map fst data) then Raises TypeError
      else
        (case (dict_get data ''id'', dict_get data ''title'') of
           (Some i, Some t) \<Rightarrow>
             (case (as_str i, as_str t, given data ''completed'' as_bool False,
                    given data ''created_at'' as_str now,
                    given data ''completed_at'' as_optional_str None,
                    given data ''timer_minutes'' as_optional_int None) of
                (Some i', Some t', Some c, Some cr, Some co, Some tm) \<Rightarrow>
                  Returns \<lparr>id_todo = i', title_todo = t', completed = c, created_at = cr,
                           completed_at = co, timer_minutes = tm\<rparr>
              | _ \<Rightarrow> IllTyped)
         | _ \<Rightarrow> Raises TypeError))"
| "from_dict now _ = Raises TypeError"

text \<open>
  The comprehension \<open>[Todo.from_dict(item) for item in data]\<close>: the first item that
  raises ends it.
\<close>

fun from_dicts :: "string \<Rightarrow> json list \<Rightarrow> Todo list outcome" where
  "from_dicts now [] = Returns []"
| "from_dicts now (item # rest) =
     (case from_dict now item of
        Raises e \<Rightarrow> Raises e
      | Returns todo \<Rightarrow>
          (case from_dicts now rest of
             Returns todos \<Rightarrow> Returns (todo # todos)
           | Raises e \<Rightarrow> Raises e
           | IllTyped \<Rightarrow> IllTyped)
      | IllTyped \<Rightarrow>
          (case from_dicts now rest of Raises e \<Rightarrow> Raises e | _ \<Rightarrow> IllTyped))"

text \<open>
  \<open>for item in data\<close>: a list yields its elements, a dictionary its keys, a string its
  characters; nothing else can be iterated.
\<close>

fun items_of :: "json \<Rightarrow> json list option" where
  "items_of (JList xs) = Some xs"
| "items_of (JDict kvs) = Some (map (\<lambda>kv. JString (fst kv)) kvs)"
| "items_of (JString cs) = Some (map (\<lambda>c. JString [c]) cs)"
| "items_of _ = None"

text \<open>
  The file \<open>todos.json\<close> as \<open>load_todos\<close> meets it: absent; present but not openable
  (\<open>open\<close> raises an \<open>OSError\<close>, inside the \<open>try\<close> block); text that
  \<open>json.load\<close> rejects with \<open>JSONDecodeError\<close>; or a JSON document, held as the value
  \<open>json.load\<close> returns for it. Parsing and printing JSON text is the library's part and
  is not modelled.
\<close>

datatype todos_file = Absent | Unreadable | Garbled | Document json

text \<open>The clause \<open>except (json.JSONDecodeError, KeyError): return []\<close>.\<close>

definition handler :: "error \<Rightarrow> Todo list outcome" where
  "handler e = (if e = JSONDecodeError \<or> e = KeyError then Returns [] else Raises e)"

definition load_todos :: "string \<Rightarrow> todos_file \<Rightarrow> Todo list outcome" where
  "load_todos now f =
     (case f of
        Absent \<Rightarrow> Returns []
      | Unreadable \<Rightarrow> handler OSError
      | Garbled \<Rightarrow> handler JSONDecodeError
      | Document data \<Rightarrow>
          (case items_of data of
             None \<Rightarrow> handler TypeError
           | Some items \<Rightarrow>
               (case from_dicts now items of
                  Raises e \<Rightarrow> handler e
                | Returns todos \<Rightarrow> Returns todos
                | IllTyped \<Rightarrow> IllTyped)))"

definition dump_todos :: "Todo list \<Rightarrow> json" where
  "dump_todos todos = JList (map (\<lambda>todo. JDict (to_dict todo)) todos)"

text \<open>\<open>save_todos\<close> replaces the file; creating the directory and writing are taken to succeed.\<close>

definition save_todos :: "todos_file \<Rightarrow> Todo list \<Rightarrow> todos_file" where
  "save_todos f todos = Document (dump_todos todos)"

section \<open>Todo manager (todo.py, class TodoManager)\<close>

record TodoManager =
  todos :: "Todo list"
  storage :: todos_file

definition save :: "TodoManager \<Rightarrow> TodoManager" where
  "save m = m\<lparr>storage := save_todos (storage m) (todos m)\<rparr>"

definition add :: "TodoManager \<Rightarrow> string \<Rightarrow> string \<Rightarrow> string \<Rightarrow> int option \<Rightarrow> TodoManager \<times> Todo" where
  "add m new_id now title minutes =
     (let todo = create_todo new_id now title minutes
      in (save (m\<lparr>todos := todos m @ [todo]\<rparr>), todo))"

text \<open>
  The loop of \<open>complete\<close>: at the first todo that matches, mark it in place and stop.
  It yields the list after the mutation and the todo returned, or \<open>None\<close> when the
  loop runs to its end.
\<close>

fun complete_loop :: "string \<Rightarrow> string \<Rightarrow> Todo list \<Rightarrow> (Todo list \<times> Todo) option" where
  "complete_loop now wanted_id [] = None"
| "complete_loop now wanted_id (todo # rest) =
     (if matches (id_todo todo) wanted_id
      then Some (mark_complete now todo # rest, mark_complete now todo)
      else (case complete_loop now wanted_id rest of
              None \<Rightarrow> None
            | Some (rest', found) \<Rightarrow> Some (todo # rest', found)))"

definition complete :: "TodoManager \<Rightarrow> string \<Rightarrow> string \<Rightarrow> TodoManager \<times> Todo option" where
  "complete m now wanted_id =
     (case complete_loop now wanted_id (todos m) of
        None \<Rightarrow> (m, None)
      | Some (todos', found) \<Rightarrow> (save (m\<lparr>todos := todos'\<rparr>), Some found))"

fun delete_loop :: "string \<Rightarrow> Todo list \<Rightarrow> Todo list option" where
  "delete_loop wanted_id [] = None"
| "delete_loop wanted_id (todo # rest) =
     (if matches (id_todo todo) wanted_id then Some rest
      else (case delete_loop wanted_id rest of None \<Rightarrow> None | Some rest' \<Rightarrow> Some (todo # rest')))"

definition delete :: "TodoManager \<Rightarrow> string \<Rightarrow> TodoManager \<times> bool" where
  "delete m wanted_id =
     (case delete_loop wanted_id (todos m) of
        None \<Rightarrow> (m, False)
      | Some todos' \<Rightarrow> (save (m\<lparr>todos := todos'\<rparr>), True))"

fun get_loop :: "string \<Rightarrow> Todo list \<Rightarrow> Todo option" where
  "get_loop wanted_id [] = None"
| "get_loop wanted_id (todo # rest) =
     (if matches (id_todo todo) wanted_id then Some todo else get_loop wanted_id rest)"

definition get :: "TodoManager \<Rightarrow> string \<Rightarrow> Todo option" where
  "get m wanted_id = get_loop wanted_id (todos m)"

definition list_pending :: "TodoManager \<Rightarrow> Todo list" where
  "list_pending m = filter (\<lambda>todo. \<not> completed todo) (todos m)"

definition list_completed :: "TodoManager \<Rightarrow> Todo list" where
  "list_completed m = filter completed (todos m)"

definition clear_completed :: "TodoManager \<Rightarrow> TodoManager \<times> int" where
  "clear_completed m =
     (let original_count = int (length (todos m));
          m1 = m\<lparr>todos := filter (\<lambda>todo. \<not> completed todo) (todos m)\<rparr>
      in (save m1, original_count - int (length (todos m1))))"

section \<open>Relations between the states of a run\<close>

text \<open>
  What any step may do to a Timer object: its identifier and total never change, its
  remaining time never grows and never drops below zero once it is at or above zero.
\<close>

definition counts_down :: "Timer \<Rightarrow> Timer \<Rightarrow> bool" where
  "counts_down t t' =
     (id_timer t' = id_timer t \<and> total_seconds t' = total_seconds t \<and>
      remaining_seconds t' \<le> remaining_seconds t \<and>
      (0 \<le> remaining_seconds t \<longrightarrow> 0 \<le> remaining_seconds t'))"

definition heap_evolves :: "Timer list \<Rightarrow> Timer list \<Rightarrow> bool" where
  "heap_evolves h h' = (length h \<le> length h' \<and> (\<forall>a<length h. counts_down (h ! a) (h' ! a)))"

text \<open>
  What any step may do to the tasks: none disappears, and a task that has returned
  stays returned. \<open>calls_ok\<close>: every recorded call of \<open>on_complete\<close> was made by a
  different task, each of them returned by now, for a timer that was complete then.
\<close>

definition pool_grows :: "task list \<Rightarrow> task list \<Rightarrow> bool" where
  "pool_grows p p' =
     (length p \<le> length p' \<and> (\<forall>k<length p. task_pc (p ! k) = Done \<longrightarrow> task_pc (p' ! k) = Done))"

definition calls_ok :: "state \<Rightarrow> bool" where
  "calls_ok s =
     (distinct (map fst (complete_calls s)) \<and>
      (\<forall>c \<in> set (complete_calls s).
         fst c < length (pool s) \<and> task_pc (pool s ! fst c) = Done \<and>
         remaining_seconds (snd (snd c)) \<le> 0))"


section \<open>The timer counts down\<close>

lemma counts_down_refl: "counts_down t t"
  by (simp add: counts_down_def)

lemma counts_down_trans: "counts_down t u \<Longrightarrow> counts_down u v \<Longrightarrow> counts_down t v"
  by (auto simp: counts_down_def)

lemma counts_down_tick: "counts_down t (fst (tick t))"
  by (simp add: counts_down_def tick_def Let_def)

lemma counts_down_paused: "counts_down t (t\<lparr>paused := b\<rparr>)"
  by (simp add: counts_down_def)

lemma heap_evolves_refl: "heap_evolves h h"
  by (simp add: heap_evolves_def counts_down_refl)

lemma heap_evolves_trans: "heap_evolves h h' \<Longrightarrow> heap_evolves h' h'' \<Longrightarrow> heap_evolves h h''"
  unfolding heap_evolves_def
  by (meson counts_down_trans le_trans less_le_trans)

lemma heap_evolves_append: "heap_evolves h (h @ [t])"
  by (simp add: heap_evolves_def nth_append counts_down_refl)

lemma heap_evolves_update:
  assumes "counts_down (h ! a) v"
  shows "heap_evolves h (h[a := v])"
proof (cases "a < length h")
  case True
  with assms show ?thesis
    by (simp add: heap_evolves_def nth_list_update counts_down_refl)
next
  case False
  then have "h[a := v] = h" by (simp add: list_update_beyond not_less)
  then show ?thesis by (simp add: heap_evolves_refl)
qed

lemma heap_spawn: "heap (spawn s a) = heap s"
  by (simp add: spawn_def Let_def)

lemma heap_start_timer: "heap (fst (start_timer s x)) = heap s"
  by (simp add: start_timer_def heap_spawn split: option.split)

lemma heap_start_all_loop: "heap (start_all_loop ks s) = heap s"
  by (induction ks arbitrary: s) (simp_all add: heap_start_timer)

lemma heap_cleanup_loop: "heap (cleanup_loop ks s) = heap s"
  by (induction ks arbitrary: s) simp_all

lemma heap_remove_timer: "heap (fst (remove_timer s x)) = heap s"
  by (simp add: remove_timer_def Let_def split: option.split prod.split)

lemma heap_loop_head: "heap (loop_head s k) = heap s"
  by (simp add: loop_head_def Let_def)

lemma heap_evolves_wake: "heap_evolves (heap s) (heap (wake s k))"
  by (simp add: wake_def Let_def heap_loop_head heap_evolves_refl heap_evolves_update
      counts_down_tick split: pc.split)

lemma heap_evolves_step: "heap_evolves (heap s) (heap (step s e))"
proof (cases e)
  case (SetCallbacks x y)
  then show ?thesis by (simp add: set_callbacks_def heap_evolves_refl)
next
  case (AddTimer i n t m d)
  then show ?thesis by (simp add: add_timer_def Let_def heap_evolves_append)
next
  case (RemoveTimer x)
  then show ?thesis by (simp add: heap_remove_timer heap_evolves_refl)
next
  case (StartTimer x)
  then show ?thesis by (simp add: heap_start_timer heap_evolves_refl)
next
  case (PauseTimer x)
  then show ?thesis
    by (simp add: pause_timer_def heap_evolves_refl heap_evolves_update counts_down_paused
        split: option.split)
next
  case (ResumeTimer x)
  then show ?thesis
    by (simp add: resume_timer_def Let_def heap_start_timer heap_evolves_refl
        heap_evolves_update counts_down_paused split: option.split)
next
  case StartAll
  then show ?thesis by (simp add: start_all_def heap_start_all_loop heap_evolves_refl)
next
  case StopAll
  then show ?thesis by (simp add: stop_all_def heap_evolves_refl)
next
  case CleanupCompleted
  then show ?thesis by (simp add: cleanup_completed_def Let_def heap_cleanup_loop heap_evolves_refl)
next
  case (Wake k)
  then show ?thesis by (simp add: heap_evolves_wake)
qed

lemma heap_evolves_run: "heap_evolves (heap s) (heap (run s es))"
proof (induction es arbitrary: s)
  case Nil
  show ?case by (simp add: heap_evolves_refl)
next
  case (Cons e es)
  have "heap_evolves (heap s) (heap (step s e))" by (rule heap_evolves_step)
  moreover have "heap_evolves (heap (step s e)) (heap (run (step s e) es))" by (rule Cons.IH)
  ultimately show ?case by (simp add: heap_evolves_trans)
qed

lemma run_append: "run s (es @ es') = run (run s es) es'"
  by (induction es arbitrary: s) simp_all

text \<open>
  Claim C4. One call of \<open>tick\<close> takes exactly one second off \<open>remaining_seconds\<close> when
  the timer has time left and is not paused; it leaves \<open>remaining_seconds\<close> as it is
  when the timer is paused or has no time left. The difference is never more than one,
  no other field changes, and the value returned says whether time is left.
\<close>

theorem tick_decrements_by_exactly_one:
  "(0 < remaining_seconds t \<and> \<not> paused t \<longrightarrow>
      remaining_seconds (fst (tick t)) = remaining_seconds t - 1) \<and>
   (paused t \<or> remaining_seconds t \<le> 0 \<longrightarrow>
      remaining_seconds (fst (tick t)) = remaining_seconds t) \<and>
   remaining_seconds t - remaining_seconds (fst (tick t)) \<in> {0, 1} \<and>
   fst (tick t) = t\<lparr>remaining_seconds := remaining_seconds (fst (tick t))\<rparr> \<and>
   snd (tick t) = (0 < remaining_seconds (fst (tick t)))"
  by (auto simp: tick_def Let_def)

theorem tick_decrements_by_exactly_one_witness:
  "remaining_seconds (fst (tick \<lparr>id_timer = ''abcd1234'', title_timer = ''Focus'',
      total_seconds = 60, remaining_seconds = 5, started_at = ''2024-01-01T10:00:00'',
      todo_id = None, paused = False\<rparr>)) = 4 \<and>
   remaining_seconds (fst (tick \<lparr>id_timer = ''abcd1234'', title_timer = ''Focus'',
      total_seconds = 60, remaining_seconds = 5, started_at = ''2024-01-01T10:00:00'',
      todo_id = None, paused = True\<rparr>)) = 5 \<and>
   remaining_seconds (fst (tick \<lparr>id_timer = ''abcd1234'', title_timer = ''Focus'',
      total_seconds = 60, remaining_seconds = 0, started_at = ''2024-01-01T10:00:00'',
      todo_id = None, paused = False\<rparr>)) = 0"
  using tick_decrements_by_exactly_one [of "\<lparr>id_timer = ''abcd1234'', title_timer = ''Focus'',
      total_seconds = 60, remaining_seconds = 5, started_at = ''2024-01-01T10:00:00'',
      todo_id = None, paused = False\<rparr>"]
    tick_decrements_by_exactly_one [of "\<lparr>id_timer = ''abcd1234'', title_timer = ''Focus'',
      total_seconds = 60, remaining_seconds = 5, started_at = ''2024-01-01T10:00:00'',
      todo_id = None, paused = True\<rparr>"]
    tick_decrements_by_exactly_one [of "\<lparr>id_timer = ''abcd1234'', title_timer = ''Focus'',
      total_seconds = 60, remaining_seconds = 0, started_at = ''2024-01-01T10:00:00'',
      todo_id = None, paused = False\<rparr>"]
  by simp

text \<open>
  Claim C3. Take any run of the manager, add a timer with a non-negative number of
  minutes, and let the run go on with any operations and any resumptions of countdown
  coroutines. At every point after the addition the timer has its total of
  \<open>minutes * 60\<close> seconds and \<open>0 \<le> remaining_seconds \<le> total_seconds\<close>; and once
  it is complete it is complete at every later point.
\<close>

theorem remaining_within_bounds:
  assumes "0 \<le> minutes"
  shows "let s0 = run init pre;
             a = snd (add_timer s0 new_id now title minutes todo);
             s = run (fst (add_timer s0 new_id now title minutes todo)) mid;
             s' = run s post
         in total_seconds (heap s ! a) = minutes * 60 \<and>
            0 \<le> remaining_seconds (heap s ! a) \<and>
            remaining_seconds (heap s ! a) \<le> total_seconds (heap s ! a) \<and>
            (is_complete (heap s ! a) \<longrightarrow> is_complete (heap s' ! a))"
proof -
  define s0 where "s0 = run init pre"
  define a where "a = length (heap s0)"
  define s1 where "s1 = fst (add_timer s0 new_id now title minutes todo)"
  define s where "s = run s1 mid"
  define s' where "s' = run s post"
  have a_eq: "snd (add_timer s0 new_id now title minutes todo) = a"
    by (simp add: add_timer_def Let_def a_def)
  have len: "a < length (heap s1)"
    by (simp add: s1_def add_timer_def Let_def a_def)
  have born: "heap s1 ! a = create_timer new_id now title minutes todo"
    by (simp add: s1_def add_timer_def Let_def a_def)
  have ev: "heap_evolves (heap s1) (heap s)"
    unfolding s_def by (rule heap_evolves_run)
  have ev': "heap_evolves (heap s) (heap s')"
    unfolding s'_def by (rule heap_evolves_run)
  from ev len have cd: "counts_down (heap s1 ! a) (heap s ! a)" and len': "a < length (heap s)"
    by (auto simp: heap_evolves_def)
  from ev' len' have cd': "counts_down (heap s ! a) (heap s' ! a)"
    by (auto simp: heap_evolves_def)
  have tot: "total_seconds (heap s ! a) = minutes * 60"
    using cd born by (simp add: counts_down_def create_timer_def Let_def)
  have lo: "0 \<le> remaining_seconds (heap s ! a)"
    using cd born assms by (simp add: counts_down_def create_timer_def Let_def)
  have hi: "remaining_seconds (heap s ! a) \<le> total_seconds (heap s ! a)"
    using cd born by (simp add: counts_down_def create_timer_def Let_def)
  have mono: "is_complete (heap s ! a) \<longrightarrow> is_complete (heap s' ! a)"
    using cd' by (auto simp: counts_down_def is_complete_def)
  show ?thesis
    using tot lo hi mono
    by (simp add: Let_def a_eq s0_def [symmetric] s1_def [symmetric] s_def [symmetric] s'_def [symmetric])
qed

theorem remaining_within_bounds_witness:
  "(0::int) \<le> 1 \<and>
   (let s0 = run init [];
        a = snd (add_timer s0 ''abcd1234'' ''2024-01-01T10:00:00'' ''Focus'' 1 None);
        s = run (fst (add_timer s0 ''abcd1234'' ''2024-01-01T10:00:00'' ''Focus'' 1 None))
              [StartTimer ''abcd1234'', Wake 0, Wake 0];
        s' = run s [Wake 0, PauseTimer ''abcd'']
    in total_seconds (heap s ! a) = 1 * 60 \<and>
       0 \<le> remaining_seconds (heap s ! a) \<and>
       remaining_seconds (heap s ! a) \<le> total_seconds (heap s ! a) \<and>
       (is_complete (heap s ! a) \<longrightarrow> is_complete (heap s' ! a)))"
  using remaining_within_bounds [of 1 "[]" "''abcd1234''" "''2024-01-01T10:00:00''" "''Focus''"
      None "[StartTimer ''abcd1234'', Wake 0, Wake 0]" "[Wake 0, PauseTimer ''abcd'']"]
  by simp

section \<open>Starting a timer\<close>

lemmas manager_defs = init_def add_timer_def create_timer_def start_timer_def get_timer_def
  matches_def spawn_def is_done_def resume_timer_def pause_timer_def set_callbacks_def
  wake_def loop_head_def tick_def is_complete_def Let_def

text \<open>
  Claim C1, at the input where the code departs from it. A timer with the identifier
  \<open>abcd1234\<close> is added and started by its full identifier, so one countdown task for it
  is active. \<open>start_timer\<close> with the prefix \<open>abcd\<close> finds the same timer, yet returns
  \<open>True\<close> and creates a second task for it while the first is still active: the guard
  looks the argument \<open>abcd\<close> up in \<open>tasks\<close>, whose keys are full identifiers. With
  the full identifier, and with a string that matches no timer, it returns \<open>False\<close>.
\<close>

theorem start_timer_by_prefix_spawns_second_process:
  "get_timer (run init [AddTimer ''abcd1234'' ''2024-01-01T10:00:00'' ''Focus'' 25 None,
                        StartTimer ''abcd1234'']) ''abcd'' = Some 0 \<and>
   pool (run init [AddTimer ''abcd1234'' ''2024-01-01T10:00:00'' ''Focus'' 25 None,
                   StartTimer ''abcd1234'']) = [\<lparr>task_timer = 0, task_pc = Created\<rparr>] \<and>
   snd (start_timer (run init [AddTimer ''abcd1234'' ''2024-01-01T10:00:00'' ''Focus'' 25 None,
                               StartTimer ''abcd1234'']) ''abcd'') = True \<and>
   pool (fst (start_timer (run init [AddTimer ''abcd1234'' ''2024-01-01T10:00:00'' ''Focus'' 25 None,
                                     StartTimer ''abcd1234'']) ''abcd'')) =
     [\<lparr>task_timer = 0, task_pc = Created\<rparr>, \<lparr>task_timer = 0, task_pc = Created\<rparr>] \<and>
   snd (start_timer (run init [AddTimer ''abcd1234'' ''2024-01-01T10:00:00'' ''Focus'' 25 None,
                               StartTimer ''abcd1234'']) ''abcd1234'') = False \<and>
   snd (start_timer (run init [AddTimer ''abcd1234'' ''2024-01-01T10:00:00'' ''Focus'' 25 None,
                               StartTimer ''abcd1234'']) ''ef01'') = False"
  by (simp add: manager_defs)

section \<open>Calls of the completion callback\<close>

lemma pool_grows_refl: "pool_grows p p"
  by (simp add: pool_grows_def)

lemma pool_grows_trans: "pool_grows p p' \<Longrightarrow> pool_grows p' p'' \<Longrightarrow> pool_grows p p''"
  unfolding pool_grows_def by (meson le_trans less_le_trans)

lemma pool_grows_append: "pool_grows p (p @ [tk])"
  by (simp add: pool_grows_def nth_append)

lemma pool_grows_update:
  assumes "task_pc (p ! k) = Done \<longrightarrow> task_pc v = Done"
  shows "pool_grows p (p[k := v])"
proof (cases "k < length p")
  case True
  with assms show ?thesis by (simp add: pool_grows_def nth_list_update)
next
  case False
  then have "p[k := v] = p" by (simp add: list_update_beyond not_less)
  then show ?thesis by (simp add: pool_grows_refl)
qed

lemma pool_grows_cancel: "pool_grows p (p[k := cancel (p ! k)])"
  by (rule pool_grows_update) (simp add: cancel_def is_done_def)

lemma pool_grows_cancel_each: "pool_grows p (cancel_each ks p)"
proof (induction ks arbitrary: p)
  case Nil
  show ?case by (simp add: pool_grows_refl)
next
  case (Cons k ks)
  have "pool_grows p (p[k := cancel (p ! k)])" by (rule pool_grows_cancel)
  moreover have "pool_grows (p[k := cancel (p ! k)]) (cancel_each ks (p[k := cancel (p ! k)]))"
    by (rule Cons.IH)
  ultimately show ?case by (simp add: pool_grows_trans)
qed

lemma calls_ok_frame:
  assumes "calls_ok s" "pool_grows (pool s) (pool s')" "complete_calls s' = complete_calls s"
  shows "calls_ok s'"
  using assms unfolding calls_ok_def pool_grows_def by (metis less_le_trans)

text \<open>Operations other than the coroutine leave the record of calls alone.\<close>

lemma calls_spawn: "complete_calls (spawn s a) = complete_calls s"
  by (simp add: spawn_def Let_def)

lemma pool_spawn: "pool_grows (pool s) (pool (spawn s a))"
  by (simp add: spawn_def Let_def pool_grows_append)

lemma calls_start_timer: "complete_calls (fst (start_timer s x)) = complete_calls s"
  by (simp add: start_timer_def calls_spawn split: option.split)

lemma pool_start_timer: "pool_grows (pool s) (pool (fst (start_timer s x)))"
  by (simp add: start_timer_def pool_spawn pool_grows_refl split: option.split)

lemma calls_start_all_loop: "complete_calls (start_all_loop ks s) = complete_calls s"
  by (induction ks arbitrary: s) (simp_all add: calls_start_timer)

lemma pool_start_all_loop: "pool_grows (pool s) (pool (start_all_loop ks s))"
proof (induction ks arbitrary: s)
  case Nil
  show ?case by (simp add: pool_grows_refl)
next
  case (Cons k ks)
  show ?case
    using Cons.IH [of s] Cons.IH [of "fst (start_timer s k)"] pool_start_timer [of s k]
    by (auto intro: pool_grows_trans)
qed

lemma calls_cleanup_loop: "complete_calls (cleanup_loop ks s) = complete_calls s"
  by (induction ks arbitrary: s) simp_all

lemma pool_cleanup_loop: "pool (cleanup_loop ks s) = pool s"
  by (induction ks arbitrary: s) simp_all

lemma calls_remove_timer: "complete_calls (fst (remove_timer s x)) = complete_calls s"
  by (simp add: remove_timer_def Let_def split: option.split prod.split)

lemma pool_remove_timer: "pool_grows (pool s) (pool (fst (remove_timer s x)))"
  by (simp add: remove_timer_def Let_def pool_grows_refl pool_grows_cancel split: option.split prod.split)

lemma calls_resume_timer: "complete_calls (fst (resume_timer s x)) = complete_calls s"
  by (simp add: resume_timer_def Let_def calls_start_timer split: option.split)

lemma pool_resume_timer: "pool_grows (pool s) (pool (fst (resume_timer s x)))"
proof -
  have "pool_grows (pool s) (pool (fst (start_timer (s\<lparr>heap := h\<rparr>) y)))" for h y
    using pool_start_timer [of "s\<lparr>heap := h\<rparr>" y] by simp
  then show ?thesis
    by (simp add: resume_timer_def Let_def pool_grows_refl split: option.split)
qed

lemma calls_ok_loop_head:
  assumes ok: "calls_ok s" and k: "k < length (pool s)" and pc: "task_pc (pool s ! k) \<noteq> Done"
  shows "calls_ok (loop_head s k)"
proof -
  have fresh: "k \<notin> fst ` set (complete_calls s)"
    using ok pc unfolding calls_ok_def by auto
  have old: "\<forall>c \<in> set (complete_calls s).
      fst c < length (pool s) \<and> task_pc ((pool s)[k := v] ! fst c) = Done \<and>
      remaining_seconds (snd (snd c)) \<le> 0" for v
    using ok fresh k unfolding calls_ok_def by (auto simp: nth_list_update)
  have dist: "distinct (map fst (complete_calls s))"
    using ok unfolding calls_ok_def by simp
  show ?thesis
    using old dist fresh k
    by (simp add: loop_head_def Let_def calls_ok_def is_complete_def)
qed

lemma calls_ok_wake:
  assumes "calls_ok s"
  shows "calls_ok (wake s k)"
proof (cases "k < length (pool s)")
  case False
  with assms show ?thesis by (simp add: wake_def)
next
  case True
  show ?thesis
  proof (cases "task_pc (pool s ! k)")
    case Created
    with assms True show ?thesis by (simp add: wake_def calls_ok_loop_head)
  next
    case Sleeping
    have "calls_ok (s\<lparr>heap := h, tick_calls := n\<rparr>)" and "calls_ok (s\<lparr>heap := h\<rparr>)" for h n
      using assms by (simp_all add: calls_ok_def)
    with Sleeping True show ?thesis
      by (simp add: wake_def Let_def calls_ok_loop_head)
  next
    case Done
    with assms True show ?thesis by (simp add: wake_def)
  next
    case Cancelled
    with assms True show ?thesis by (simp add: wake_def)
  qed
qed

lemma calls_ok_step:
  assumes "calls_ok s"
  shows "calls_ok (step s e)"
proof (cases e)
  case (SetCallbacks x y)
  with assms show ?thesis by (simp add: set_callbacks_def calls_ok_def)
next
  case (AddTimer i n t m d)
  with assms show ?thesis by (simp add: add_timer_def Let_def calls_ok_def)
next
  case (RemoveTimer x)
  with assms show ?thesis
    by (simp add: calls_ok_frame [OF _ pool_remove_timer calls_remove_timer])
next
  case (StartTimer x)
  with assms show ?thesis
    by (simp add: calls_ok_frame [OF _ pool_start_timer calls_start_timer])
next
  case (PauseTimer x)
  with assms show ?thesis by (simp add: pause_timer_def calls_ok_def split: option.split)
next
  case (ResumeTimer x)
  with assms show ?thesis
    by (simp add: calls_ok_frame [OF _ pool_resume_timer calls_resume_timer])
next
  case StartAll
  have "calls_ok (s\<lparr>running := True\<rparr>)" using assms by (simp add: calls_ok_def)
  with StartAll show ?thesis
    by (simp add: start_all_def calls_ok_frame [OF _ pool_start_all_loop calls_start_all_loop])
next
  case StopAll
  have "pool_grows (pool s) (pool (stop_all s))"
    by (simp add: stop_all_def pool_grows_cancel_each)
  moreover have "complete_calls (stop_all s) = complete_calls s"
    by (simp add: stop_all_def)
  ultimately show ?thesis using assms StopAll by (simp add: calls_ok_frame)
next
  case CleanupCompleted
  have "pool_grows (pool s) (pool (fst (cleanup_completed s)))"
    by (simp add: cleanup_completed_def Let_def pool_cleanup_loop pool_grows_refl)
  moreover have "complete_calls (fst (cleanup_completed s)) = complete_calls s"
    by (simp add: cleanup_completed_def Let_def calls_cleanup_loop)
  ultimately show ?thesis using assms CleanupCompleted by (simp add: calls_ok_frame)
next
  case (Wake k)
  with assms show ?thesis by (simp add: calls_ok_wake)
qed

lemma calls_ok_run: "calls_ok s \<Longrightarrow> calls_ok (run s es)"
  by (induction es arbitrary: s) (simp_all add: calls_ok_step)

lemma calls_ok_init: "calls_ok init"
  by (simp add: calls_ok_def init_def)

subsection \<open>A countdown run to its end\<close>

lemma wake_done: "k < length (pool s) \<Longrightarrow> task_pc (pool s ! k) = Done \<Longrightarrow> wake s k = s"
  by (simp add: wake_def)

lemma run_wake_done:
  "k < length (pool s) \<Longrightarrow> task_pc (pool s ! k) = Done \<Longrightarrow> run s (replicate m (Wake k)) = s"
  by (induction m) (simp_all add: wake_done)

lemma wake_tick:
  assumes "k < length (pool s)" "pool s ! k = \<lparr>task_timer = a, task_pc = Sleeping\<rparr>"
    "a < length (heap s)" "\<not> paused (heap s ! a)" "1 < remaining_seconds (heap s ! a)"
  shows "wake s k =
    s\<lparr>heap := (heap s)[a := (heap s ! a)\<lparr>remaining_seconds := remaining_seconds (heap s ! a) - 1\<rparr>],
      tick_calls := (if on_tick s then tick_calls s + 1 else tick_calls s)\<rparr>"
proof -
  have "(pool s)[k := \<lparr>task_timer = a, task_pc = Sleeping\<rparr>] = pool s"
    using assms(1,2) by (metis list_update_id)
  then show ?thesis
    using assms by (simp add: wake_def loop_head_def tick_def Let_def)
qed

lemma wake_last:
  assumes "k < length (pool s)" "pool s ! k = \<lparr>task_timer = a, task_pc = Sleeping\<rparr>"
    "a < length (heap s)" "\<not> paused (heap s ! a)" "remaining_seconds (heap s ! a) = 1"
  shows "wake s k =
    s\<lparr>heap := (heap s)[a := (heap s ! a)\<lparr>remaining_seconds := 0\<rparr>],
      tick_calls := (if on_tick s then tick_calls s + 1 else tick_calls s),
      complete_calls := (if on_complete s
         then complete_calls s @ [(k, a, (heap s ! a)\<lparr>remaining_seconds := 0\<rparr>)]
         else complete_calls s),
      pool := (pool s)[k := \<lparr>task_timer = a, task_pc = Done\<rparr>]\<rparr>"
  using assms by (simp add: wake_def loop_head_def tick_def is_complete_def Let_def)

lemma countdown:
  assumes "k < length (pool s)" "pool s ! k = \<lparr>task_timer = a, task_pc = Sleeping\<rparr>"
    "a < length (heap s)" "\<not> paused (heap s ! a)" "remaining_seconds (heap s ! a) = int (Suc n)"
  shows "run s (replicate (Suc n) (Wake k)) =
    s\<lparr>heap := (heap s)[a := (heap s ! a)\<lparr>remaining_seconds := 0\<rparr>],
      tick_calls := (if on_tick s then tick_calls s + Suc n else tick_calls s),
      complete_calls := (if on_complete s
         then complete_calls s @ [(k, a, (heap s ! a)\<lparr>remaining_seconds := 0\<rparr>)]
         else complete_calls s),
      pool := (pool s)[k := \<lparr>task_timer = a, task_pc = Done\<rparr>]\<rparr>"
  using assms
proof (induction n arbitrary: s)
  case 0
  then show ?case by (simp add: wake_last)
next
  case (Suc n)
  define s1 where "s1 = s\<lparr>heap := (heap s)[a := (heap s ! a)\<lparr>remaining_seconds := remaining_seconds (heap s ! a) - 1\<rparr>],
      tick_calls := (if on_tick s then tick_calls s + 1 else tick_calls s)\<rparr>"
  have w: "wake s k = s1"
    unfolding s1_def using Suc.prems by (intro wake_tick) simp_all
  have p1: "k < length (pool s1)" "pool s1 ! k = \<lparr>task_timer = a, task_pc = Sleeping\<rparr>"
    "a < length (heap s1)" "\<not> paused (heap s1 ! a)" "remaining_seconds (heap s1 ! a) = int (Suc n)"
    using Suc.prems by (simp_all add: s1_def)
  have "run s (replicate (Suc (Suc n)) (Wake k)) = run s1 (replicate (Suc n) (Wake k))"
    by (simp add: w)
  also have "\<dots> = s1\<lparr>heap := (heap s1)[a := (heap s1 ! a)\<lparr>remaining_seconds := 0\<rparr>],
      tick_calls := (if on_tick s1 then tick_calls s1 + Suc n else tick_calls s1),
      complete_calls := (if on_complete s1
         then complete_calls s1 @ [(k, a, (heap s1 ! a)\<lparr>remaining_seconds := 0\<rparr>)]
         else complete_calls s1),
      pool := (pool s1)[k := \<lparr>task_timer = a, task_pc = Done\<rparr>]\<rparr>"
    by (rule Suc.IH [OF p1])
  also have "\<dots> = s\<lparr>heap := (heap s)[a := (heap s ! a)\<lparr>remaining_seconds := 0\<rparr>],
      tick_calls := (if on_tick s then tick_calls s + Suc (Suc n) else tick_calls s),
      complete_calls := (if on_complete s
         then complete_calls s @ [(k, a, (heap s ! a)\<lparr>remaining_seconds := 0\<rparr>)]
         else complete_calls s),
      pool := (pool s)[k := \<lparr>task_timer = a, task_pc = Done\<rparr>]\<rparr>"
    using Suc.prems(3) by (simp add: s1_def)
  finally show ?case .
qed

lemma one_minute_started:
  "run init [SetCallbacks tick_cb True, AddTimer new_id now ''Focus'' 1 todo, StartTimer new_id, Wake 0] =
     \<lparr>timers = [(new_id, 0)], tasks = [(new_id, 0)], on_tick = tick_cb, on_complete = True,
      running = False,
      heap = [\<lparr>id_timer = new_id, title_timer = ''Focus'', total_seconds = 60,
               remaining_seconds = 60, started_at = now, todo_id = todo, paused = False\<rparr>],
      pool = [\<lparr>task_timer = 0, task_pc = Sleeping\<rparr>], tick_calls = 0, complete_calls = []\<rparr>"
  by (simp add: manager_defs)

lemma one_minute_finished:
  assumes "60 \<le> n"
  shows "run init ([SetCallbacks tick_cb True, AddTimer new_id now ''Focus'' 1 todo,
                    StartTimer new_id, Wake 0] @ replicate n (Wake 0)) =
     \<lparr>timers = [(new_id, 0)], tasks = [(new_id, 0)], on_tick = tick_cb, on_complete = True,
      running = False,
      heap = [\<lparr>id_timer = new_id, title_timer = ''Focus'', total_seconds = 60,
               remaining_seconds = 0, started_at = now, todo_id = todo, paused = False\<rparr>],
      pool = [\<lparr>task_timer = 0, task_pc = Done\<rparr>],
      tick_calls = (if tick_cb then 60 else 0),
      complete_calls = [(0, 0, \<lparr>id_timer = new_id, title_timer = ''Focus'', total_seconds = 60,
               remaining_seconds = 0, started_at = now, todo_id = todo, paused = False\<rparr>)]\<rparr>"
proof -
  define s0 where "s0 = run init [SetCallbacks tick_cb True, AddTimer new_id now ''Focus'' 1 todo,
                    StartTimer new_id, Wake 0]"
  define s1 where "s1 = run s0 (replicate (Suc 59) (Wake 0))"
  have s0: "s0 = \<lparr>timers = [(new_id, 0)], tasks = [(new_id, 0)], on_tick = tick_cb, on_complete = True,
      running = False,
      heap = [\<lparr>id_timer = new_id, title_timer = ''Focus'', total_seconds = 60,
               remaining_seconds = 60, started_at = now, todo_id = todo, paused = False\<rparr>],
      pool = [\<lparr>task_timer = 0, task_pc = Sleeping\<rparr>], tick_calls = 0, complete_calls = []\<rparr>"
    unfolding s0_def by (rule one_minute_started)
  have "s1 = s0\<lparr>heap := (heap s0)[0 := (heap s0 ! 0)\<lparr>remaining_seconds := 0\<rparr>],
      tick_calls := (if on_tick s0 then tick_calls s0 + Suc 59 else tick_calls s0),
      complete_calls := (if on_complete s0
         then complete_calls s0 @ [(0, 0, (heap s0 ! 0)\<lparr>remaining_seconds := 0\<rparr>)]
         else complete_calls s0),
      pool := (pool s0)[0 := \<lparr>task_timer = 0, task_pc = Done\<rparr>]\<rparr>"
    unfolding s1_def by (rule countdown) (simp_all add: s0)
  then have s1: "s1 = \<lparr>timers = [(new_id, 0)], tasks = [(new_id, 0)], on_tick = tick_cb, on_complete = True,
      running = False,
      heap = [\<lparr>id_timer = new_id, title_timer = ''Focus'', total_seconds = 60,
               remaining_seconds = 0, started_at = now, todo_id = todo, paused = False\<rparr>],
      pool = [\<lparr>task_timer = 0, task_pc = Done\<rparr>],
      tick_calls = (if tick_cb then 60 else 0),
      complete_calls = [(0, 0, \<lparr>id_timer = new_id, title_timer = ''Focus'', total_seconds = 60,
               remaining_seconds = 0, started_at = now, todo_id = todo, paused = False\<rparr>)]\<rparr>"
    by (simp add: s0)
  have split: "replicate n (Wake 0) = replicate (Suc 59) (Wake 0) @ replicate (n - 60) (Wake 0)"
    using assms by (simp add: replicate_add [symmetric] del: replicate_Suc replicate.simps)
  have "run s1 (replicate (n - 60) (Wake 0)) = s1"
    by (rule run_wake_done) (simp_all add: s1)
  then have "run s0 (replicate n (Wake 0)) = s1"
    by (simp only: split run_append s1_def [symmetric])
  then show ?thesis
    by (simp only: run_append s0_def [symmetric] s1 [symmetric])
qed

lemma restart_after_completion:
  "run init ([SetCallbacks False True, AddTimer ''abcd1234'' ''2024-01-01T10:00:00'' ''Focus'' 1 None,
              StartTimer ''abcd1234'', Wake 0] @ replicate 60 (Wake 0) @ [StartTimer ''abcd1234'', Wake 1]) =
   \<lparr>timers = [(''abcd1234'', 0)], tasks = [(''abcd1234'', 1)], on_tick = False, on_complete = True,
      running = False,
      heap = [\<lparr>id_timer = ''abcd1234'', title_timer = ''Focus'', total_seconds = 60,
               remaining_seconds = 0, started_at = ''2024-01-01T10:00:00'', todo_id = None, paused = False\<rparr>],
      pool = [\<lparr>task_timer = 0, task_pc = Done\<rparr>, \<lparr>task_timer = 0, task_pc = Done\<rparr>],
      tick_calls = 0,
      complete_calls = [(0, 0, \<lparr>id_timer = ''abcd1234'', title_timer = ''Focus'', total_seconds = 60,
               remaining_seconds = 0, started_at = ''2024-01-01T10:00:00'', todo_id = None, paused = False\<rparr>),
              (1, 0, \<lparr>id_timer = ''abcd1234'', title_timer = ''Focus'', total_seconds = 60,
               remaining_seconds = 0, started_at = ''2024-01-01T10:00:00'', todo_id = None, paused = False\<rparr>)]\<rparr>"
proof -
  note fin = one_minute_finished [OF order_refl, of False "''abcd1234''" "''2024-01-01T10:00:00''" None]
  have "run init (([SetCallbacks False True, AddTimer ''abcd1234'' ''2024-01-01T10:00:00'' ''Focus'' 1 None,
              StartTimer ''abcd1234'', Wake 0] @ replicate 60 (Wake 0)) @ [StartTimer ''abcd1234'', Wake 1]) =
        run (run init ([SetCallbacks False True, AddTimer ''abcd1234'' ''2024-01-01T10:00:00'' ''Focus'' 1 None,
              StartTimer ''abcd1234'', Wake 0] @ replicate 60 (Wake 0))) [StartTimer ''abcd1234'', Wake 1]"
    by (rule run_append)
  also have "\<dots> = run \<lparr>timers = [(''abcd1234'', 0)], tasks = [(''abcd1234'', 0)], on_tick = False,
      on_complete = True, running = False,
      heap = [\<lparr>id_timer = ''abcd1234'', title_timer = ''Focus'', total_seconds = 60,
               remaining_seconds = 0, started_at = ''2024-01-01T10:00:00'', todo_id = None, paused = False\<rparr>],
      pool = [\<lparr>task_timer = 0, task_pc = Done\<rparr>],
      tick_calls = 0,
      complete_calls = [(0, 0, \<lparr>id_timer = ''abcd1234'', title_timer = ''Focus'', total_seconds = 60,
               remaining_seconds = 0, started_at = ''2024-01-01T10:00:00'', todo_id = None, paused = False\<rparr>)]\<rparr>
      [StartTimer ''abcd1234'', Wake 1]"
    by (simp only: fin if_False)
  also have "\<dots> = \<lparr>timers = [(''abcd1234'', 0)], tasks = [(''abcd1234'', 1)], on_tick = False, on_complete = True,
      running = False,
      heap = [\<lparr>id_timer = ''abcd1234'', title_timer = ''Focus'', total_seconds = 60,
               remaining_seconds = 0, started_at = ''2024-01-01T10:00:00'', todo_id = None, paused = False\<rparr>],
      pool = [\<lparr>task_timer = 0, task_pc = Done\<rparr>, \<lparr>task_timer = 0, task_pc = Done\<rparr>],
      tick_calls = 0,
      complete_calls = [(0, 0, \<lparr>id_timer = ''abcd1234'', title_timer = ''Focus'', total_seconds = 60,
               remaining_seconds = 0, started_at = ''2024-01-01T10:00:00'', todo_id = None, paused = False\<rparr>),
              (1, 0, \<lparr>id_timer = ''abcd1234'', title_timer = ''Focus'', total_seconds = 60,
               remaining_seconds = 0, started_at = ''2024-01-01T10:00:00'', todo_id = None, paused = False\<rparr>)]\<rparr>"
    by (simp add: start_timer_def get_timer_def matches_def spawn_def is_done_def wake_def
         loop_head_def is_complete_def Let_def)
  finally show ?thesis by (simp only: append_assoc)
qed

subsection \<open>What one resumption of a countdown task does to the calls\<close>

lemma calls_step_not_wake:
  assumes "\<forall>j. e \<noteq> Wake j"
  shows "complete_calls (step s e) = complete_calls s"
proof (cases e)
  case (SetCallbacks x y)
  then show ?thesis by (simp add: set_callbacks_def)
next
  case (AddTimer i n t m d)
  then show ?thesis by (simp add: add_timer_def Let_def)
next
  case (RemoveTimer x)
  then show ?thesis by (simp add: calls_remove_timer)
next
  case (StartTimer x)
  then show ?thesis by (simp add: calls_start_timer)
next
  case (PauseTimer x)
  then show ?thesis by (simp add: pause_timer_def split: option.split)
next
  case (ResumeTimer x)
  then show ?thesis by (simp add: calls_resume_timer)
next
  case StartAll
  then show ?thesis by (simp add: start_all_def calls_start_all_loop)
next
  case StopAll
  then show ?thesis by (simp add: stop_all_def)
next
  case CleanupCompleted
  then show ?thesis by (simp add: cleanup_completed_def Let_def calls_cleanup_loop)
next
  case (Wake k)
  with assms show ?thesis by simp
qed

lemma loop_head_calls:
  assumes "k < length (pool s)"
  shows "complete_calls (loop_head s k) =
           (if remaining_seconds (heap s ! task_timer (pool s ! k)) \<le> 0 \<and> on_complete s
            then complete_calls s @ [(k, task_timer (pool s ! k), heap s ! task_timer (pool s ! k))]
            else complete_calls s)"
    and "task_pc (pool (loop_head s k) ! k) =
           (if 0 < remaining_seconds (heap s ! task_timer (pool s ! k)) \<and>
               \<not> paused (heap s ! task_timer (pool s ! k))
            then Sleeping else Done)"
  using assms by (auto simp: loop_head_def Let_def is_complete_def)

lemma wake_live:
  assumes "k < length (pool s)"
    and "task_pc (pool s ! k) = Created \<or> task_pc (pool s ! k) = Sleeping"
  shows "complete_calls (wake s k) =
           (if remaining_seconds (heap (wake s k) ! task_timer (pool s ! k)) \<le> 0 \<and> on_complete s
            then complete_calls s @
                   [(k, task_timer (pool s ! k), heap (wake s k) ! task_timer (pool s ! k))]
            else complete_calls s)"
    and "task_pc (pool (wake s k) ! k) =
           (if 0 < remaining_seconds (heap (wake s k) ! task_timer (pool s ! k)) \<and>
               \<not> paused (heap (wake s k) ! task_timer (pool s ! k))
            then Sleeping else Done)"
proof -
  from assms(2) show "complete_calls (wake s k) =
           (if remaining_seconds (heap (wake s k) ! task_timer (pool s ! k)) \<le> 0 \<and> on_complete s
            then complete_calls s @
                   [(k, task_timer (pool s ! k), heap (wake s k) ! task_timer (pool s ! k))]
            else complete_calls s)"
  proof
    assume "task_pc (pool s ! k) = Created"
    with assms(1) show ?thesis
      by (simp add: wake_def loop_head_calls heap_loop_head)
  next
    assume "task_pc (pool s ! k) = Sleeping"
    with assms(1) show ?thesis
      by (simp add: wake_def Let_def loop_head_calls heap_loop_head)
  qed
  from assms(2) show "task_pc (pool (wake s k) ! k) =
           (if 0 < remaining_seconds (heap (wake s k) ! task_timer (pool s ! k)) \<and>
               \<not> paused (heap (wake s k) ! task_timer (pool s ! k))
            then Sleeping else Done)"
  proof
    assume "task_pc (pool s ! k) = Created"
    with assms(1) show ?thesis
      by (simp add: wake_def loop_head_calls heap_loop_head)
  next
    assume "task_pc (pool s ! k) = Sleeping"
    with assms(1) show ?thesis
      by (simp add: wake_def Let_def loop_head_calls heap_loop_head)
  qed
qed

lemma wake_reaches_zero:
  assumes "k < length (pool s)" "task_pc (pool s ! k) = Sleeping"
    "task_timer (pool s ! k) < length (heap s)"
    "\<not> paused (heap s ! task_timer (pool s ! k))"
    "remaining_seconds (heap s ! task_timer (pool s ! k)) = 1"
    "on_complete s"
  shows "complete_calls (wake s k) =
           complete_calls s @
             [(k, task_timer (pool s ! k),
               (heap s ! task_timer (pool s ! k))\<lparr>remaining_seconds := 0\<rparr>)]"
  using assms by (simp add: wake_def loop_head_def tick_def is_complete_def Let_def)

lemma restart_fires_again:
  assumes "get_timer s x = Some a" "snd (start_timer s x)" "is_complete (heap s ! a)" "on_complete s"
  shows "complete_calls (wake (fst (start_timer s x)) (length (pool s))) =
           complete_calls s @ [(length (pool s), a, heap s ! a)]"
proof -
  have "fst (start_timer s x) = spawn s a"
    using assms(1,2) by (auto simp: start_timer_def split: option.splits if_splits)
  then show ?thesis
    using assms(3,4)
    by (simp add: spawn_def Let_def wake_def loop_head_def is_complete_def)
qed

lemma countdown_part:
  assumes "k < length (pool s)" "pool s ! k = \<lparr>task_timer = a, task_pc = Sleeping\<rparr>"
    "a < length (heap s)" "\<not> paused (heap s ! a)" "int n < remaining_seconds (heap s ! a)"
  shows "run s (replicate n (Wake k)) =
    s\<lparr>heap := (heap s)[a := (heap s ! a)\<lparr>remaining_seconds := remaining_seconds (heap s ! a) - int n\<rparr>],
      tick_calls := (if on_tick s then tick_calls s + n else tick_calls s)\<rparr>"
  using assms
proof (induction n arbitrary: s)
  case 0
  then show ?case by simp
next
  case (Suc n)
  define s1 where "s1 = s\<lparr>heap := (heap s)[a := (heap s ! a)\<lparr>remaining_seconds := remaining_seconds (heap s ! a) - 1\<rparr>],
      tick_calls := (if on_tick s then tick_calls s + 1 else tick_calls s)\<rparr>"
  have w: "wake s k = s1"
    unfolding s1_def using Suc.prems by (intro wake_tick) simp_all
  have p1: "k < length (pool s1)" "pool s1 ! k = \<lparr>task_timer = a, task_pc = Sleeping\<rparr>"
    "a < length (heap s1)" "\<not> paused (heap s1 ! a)" "int n < remaining_seconds (heap s1 ! a)"
    using Suc.prems by (simp_all add: s1_def)
  have "run s (replicate (Suc n) (Wake k)) = run s1 (replicate n (Wake k))"
    by (simp add: w)
  also have "\<dots> = s1\<lparr>heap := (heap s1)[a := (heap s1 ! a)\<lparr>remaining_seconds := remaining_seconds (heap s1 ! a) - int n\<rparr>],
      tick_calls := (if on_tick s1 then tick_calls s1 + n else tick_calls s1)\<rparr>"
    by (rule Suc.IH [OF p1])
  also have "\<dots> = s\<lparr>heap := (heap s)[a := (heap s ! a)\<lparr>remaining_seconds := remaining_seconds (heap s ! a) - int (Suc n)\<rparr>],
      tick_calls := (if on_tick s then tick_calls s + Suc n else tick_calls s)\<rparr>"
    using Suc.prems(3) by (simp add: s1_def diff_diff_eq)
  finally show ?case .
qed

lemma one_minute_last_second:
  "run init ([SetCallbacks False True, AddTimer ''abcd1234'' ''2024-01-01T10:00:00'' ''Focus'' 1 None,
              StartTimer ''abcd1234'', Wake 0] @ replicate 59 (Wake 0)) =
     \<lparr>timers = [(''abcd1234'', 0)], tasks = [(''abcd1234'', 0)], on_tick = False, on_complete = True,
      running = False,
      heap = [\<lparr>id_timer = ''abcd1234'', title_timer = ''Focus'', total_seconds = 60,
               remaining_seconds = 1, started_at = ''2024-01-01T10:00:00'', todo_id = None,
               paused = False\<rparr>],
      pool = [\<lparr>task_timer = 0, task_pc = Sleeping\<rparr>], tick_calls = 0, complete_calls = []\<rparr>"
proof -
  define s0 where "s0 = run init [SetCallbacks False True,
      AddTimer ''abcd1234'' ''2024-01-01T10:00:00'' ''Focus'' 1 None, StartTimer ''abcd1234'', Wake 0]"
  have s0: "s0 = \<lparr>timers = [(''abcd1234'', 0)], tasks = [(''abcd1234'', 0)], on_tick = False,
      on_complete = True, running = False,
      heap = [\<lparr>id_timer = ''abcd1234'', title_timer = ''Focus'', total_seconds = 60,
               remaining_seconds = 60, started_at = ''2024-01-01T10:00:00'', todo_id = None,
               paused = False\<rparr>],
      pool = [\<lparr>task_timer = 0, task_pc = Sleeping\<rparr>], tick_calls = 0, complete_calls = []\<rparr>"
    unfolding s0_def by (rule one_minute_started)
  have "run s0 (replicate 59 (Wake 0)) =
      s0\<lparr>heap := (heap s0)[0 := (heap s0 ! 0)\<lparr>remaining_seconds := remaining_seconds (heap s0 ! 0) - int 59\<rparr>],
        tick_calls := (if on_tick s0 then tick_calls s0 + 59 else tick_calls s0)\<rparr>"
    by (rule countdown_part) (simp_all add: s0)
  then have "run s0 (replicate 59 (Wake 0)) =
     \<lparr>timers = [(''abcd1234'', 0)], tasks = [(''abcd1234'', 0)], on_tick = False, on_complete = True,
      running = False,
      heap = [\<lparr>id_timer = ''abcd1234'', title_timer = ''Focus'', total_seconds = 60,
               remaining_seconds = 1, started_at = ''2024-01-01T10:00:00'', todo_id = None,
               paused = False\<rparr>],
      pool = [\<lparr>task_timer = 0, task_pc = Sleeping\<rparr>], tick_calls = 0, complete_calls = []\<rparr>"
    by (simp add: s0)
  then show ?thesis
    by (simp only: run_append s0_def [symmetric])
qed

lemma start_all_after_completion:
  assumes "60 \<le> n"
  shows "complete_calls (run init ([SetCallbacks tick_cb True, AddTimer new_id now ''Focus'' 1 todo,
                    StartTimer new_id, Wake 0] @ replicate n (Wake 0) @ [StartAll, Wake 1])) =
     [(0, 0, \<lparr>id_timer = new_id, title_timer = ''Focus'', total_seconds = 60,
               remaining_seconds = 0, started_at = now, todo_id = todo, paused = False\<rparr>),
      (1, 0, \<lparr>id_timer = new_id, title_timer = ''Focus'', total_seconds = 60,
               remaining_seconds = 0, started_at = now, todo_id = todo, paused = False\<rparr>)]"
proof -
  note fin = one_minute_finished [OF assms, of tick_cb new_id now todo]
  have "run init (([SetCallbacks tick_cb True, AddTimer new_id now ''Focus'' 1 todo,
                    StartTimer new_id, Wake 0] @ replicate n (Wake 0)) @ [StartAll, Wake 1]) =
        run (run init ([SetCallbacks tick_cb True, AddTimer new_id now ''Focus'' 1 todo,
                    StartTimer new_id, Wake 0] @ replicate n (Wake 0))) [StartAll, Wake 1]"
    by (rule run_append)
  then have "complete_calls (run init (([SetCallbacks tick_cb True, AddTimer new_id now ''Focus'' 1 todo,
                    StartTimer new_id, Wake 0] @ replicate n (Wake 0)) @ [StartAll, Wake 1])) =
     [(0, 0, \<lparr>id_timer = new_id, title_timer = ''Focus'', total_seconds = 60,
               remaining_seconds = 0, started_at = now, todo_id = todo, paused = False\<rparr>),
      (1, 0, \<lparr>id_timer = new_id, title_timer = ''Focus'', total_seconds = 60,
               remaining_seconds = 0, started_at = now, todo_id = todo, paused = False\<rparr>)]"
    by (simp only: fin)
       (simp add: start_all_def start_timer_def get_timer_def matches_def spawn_def is_done_def
         wake_def loop_head_def is_complete_def Let_def)
  then show ?thesis by (simp only: append_assoc)
qed

text \<open>
  Claim C2 as stated fails. A one-minute timer is added, started and counted down by
  sixty ticks: \<open>on_complete\<close> is called once. Then \<open>start_timer\<close> is called again for
  the completed timer: its task has returned, so a new task is created, finds the loop
  condition false at once, and calls \<open>on_complete\<close> a second time for the same timer,
  again with \<open>remaining_seconds = 0\<close>. The list shows, for each call, the reference of
  the timer and its remaining seconds.
\<close>

theorem on_complete_fires_again_counterexample:
  "map (\<lambda>c. (fst (snd c), remaining_seconds (snd (snd c))))
     (complete_calls (run init ([SetCallbacks False True,
        AddTimer ''abcd1234'' ''2024-01-01T10:00:00'' ''Focus'' 1 None,
        StartTimer ''abcd1234'', Wake 0] @ replicate 60 (Wake 0) @
        [StartTimer ''abcd1234'', Wake 1]))) = [(0, 0), (0, 0)]"
  by (simp only: restart_after_completion) simp

text \<open>
  Claim C2, amended. \<open>on_complete\<close> is called by countdown tasks only: no operation of
  the manager calls it itself. Whenever a countdown task that is not finished is
  resumed and then finds its timer complete (\<open>remaining_seconds \<le> 0\<close>), it calls the
  registered \<open>on_complete\<close> once, with the timer as it is then, and returns; otherwise
  it makes no call. In particular the task whose tick takes \<open>remaining_seconds\<close> from 1
  to 0 makes the call at that tick, with \<open>remaining_seconds = 0\<close>. In every run no task
  makes more than one call, and every call is for a complete timer. The manager keeps
  no record of completion: when \<open>start_timer\<close> succeeds on a complete timer, the first
  resumption of the new task calls \<open>on_complete\<close> again. A one-minute timer that is
  started once and whose task is resumed at least sixty times after its start is
  complete and \<open>on_complete\<close> has been called exactly once, with
  \<open>remaining_seconds = 0\<close>; \<open>start_all\<close> after that, and the first resumption of the
  task it creates, bring a second call.
\<close>

theorem on_complete_once_per_countdown:
  "(distinct (map fst (complete_calls (run init es))) \<and>
    (\<forall>c \<in> set (complete_calls (run init es)). remaining_seconds (snd (snd c)) \<le> 0)) \<and>
   ((\<forall>j. e \<noteq> Wake j) \<longrightarrow> complete_calls (step s e) = complete_calls s) \<and>
   (k < length (pool s) \<and> (task_pc (pool s ! k) = Created \<or> task_pc (pool s ! k) = Sleeping) \<longrightarrow>
      (let a = task_timer (pool s ! k); timer = heap (wake s k) ! a in
         complete_calls (wake s k) =
           (if remaining_seconds timer \<le> 0 \<and> on_complete s
            then complete_calls s @ [(k, a, timer)] else complete_calls s) \<and>
         task_pc (pool (wake s k) ! k) =
           (if 0 < remaining_seconds timer \<and> \<not> paused timer then Sleeping else Done))) \<and>
   (k < length (pool s) \<and> task_pc (pool s ! k) = Sleeping \<and>
    task_timer (pool s ! k) < length (heap s) \<and>
    \<not> paused (heap s ! task_timer (pool s ! k)) \<and>
    remaining_seconds (heap s ! task_timer (pool s ! k)) = 1 \<and> on_complete s \<longrightarrow>
      complete_calls (wake s k) =
        complete_calls s @
          [(k, task_timer (pool s ! k),
            (heap s ! task_timer (pool s ! k))\<lparr>remaining_seconds := 0\<rparr>)]) \<and>
   (get_timer r x = Some b \<and> snd (start_timer r x) \<and> is_complete (heap r ! b) \<and>
    on_complete r \<longrightarrow>
      complete_calls (wake (fst (start_timer r x)) (length (pool r))) =
        complete_calls r @ [(length (pool r), b, heap r ! b)]) \<and>
   (60 \<le> n \<longrightarrow>
      (let s = run init ([SetCallbacks tick_cb True, AddTimer new_id now ''Focus'' 1 todo,
                          StartTimer new_id, Wake 0] @ replicate n (Wake 0))
       in is_complete (heap s ! 0) \<and>
          complete_calls s =
            [(0, 0, \<lparr>id_timer = new_id, title_timer = ''Focus'', total_seconds = 60,
                      remaining_seconds = 0, started_at = now, todo_id = todo, paused = False\<rparr>)]) \<and>
      complete_calls (run init ([SetCallbacks tick_cb True, AddTimer new_id now ''Focus'' 1 todo,
                          StartTimer new_id, Wake 0] @ replicate n (Wake 0) @ [StartAll, Wake 1])) =
        [(0, 0, \<lparr>id_timer = new_id, title_timer = ''Focus'', total_seconds = 60,
                  remaining_seconds = 0, started_at = now, todo_id = todo, paused = False\<rparr>),
         (1, 0, \<lparr>id_timer = new_id, title_timer = ''Focus'', total_seconds = 60,
                  remaining_seconds = 0, started_at = now, todo_id = todo, paused = False\<rparr>)])"
proof -
  have "calls_ok (run init es)"
    by (simp add: calls_ok_run calls_ok_init)
  then have general: "distinct (map fst (complete_calls (run init es)))"
    "\<forall>c \<in> set (complete_calls (run init es)). remaining_seconds (snd (snd c)) \<le> 0"
    by (simp_all add: calls_ok_def)
  have others: "(\<forall>j. e \<noteq> Wake j) \<longrightarrow> complete_calls (step s e) = complete_calls s"
    using calls_step_not_wake by blast
  have live: "k < length (pool s) \<and> (task_pc (pool s ! k) = Created \<or> task_pc (pool s ! k) = Sleeping) \<longrightarrow>
      (let a = task_timer (pool s ! k); timer = heap (wake s k) ! a in
         complete_calls (wake s k) =
           (if remaining_seconds timer \<le> 0 \<and> on_complete s
            then complete_calls s @ [(k, a, timer)] else complete_calls s) \<and>
         task_pc (pool (wake s k) ! k) =
           (if 0 < remaining_seconds timer \<and> \<not> paused timer then Sleeping else Done))"
    unfolding Let_def using wake_live [of k s] by blast
  have zero: "k < length (pool s) \<and> task_pc (pool s ! k) = Sleeping \<and>
    task_timer (pool s ! k) < length (heap s) \<and>
    \<not> paused (heap s ! task_timer (pool s ! k)) \<and>
    remaining_seconds (heap s ! task_timer (pool s ! k)) = 1 \<and> on_complete s \<longrightarrow>
      complete_calls (wake s k) =
        complete_calls s @
          [(k, task_timer (pool s ! k),
            (heap s ! task_timer (pool s ! k))\<lparr>remaining_seconds := 0\<rparr>)]"
    using wake_reaches_zero [of k s] by blast
  have again: "get_timer r x = Some b \<and> snd (start_timer r x) \<and> is_complete (heap r ! b) \<and>
    on_complete r \<longrightarrow>
      complete_calls (wake (fst (start_timer r x)) (length (pool r))) =
        complete_calls r @ [(length (pool r), b, heap r ! b)]"
    using restart_fires_again [of r x b] by blast
  have scenario: "60 \<le> n \<longrightarrow>
      (let s = run init ([SetCallbacks tick_cb True, AddTimer new_id now ''Focus'' 1 todo,
                          StartTimer new_id, Wake 0] @ replicate n (Wake 0))
       in is_complete (heap s ! 0) \<and>
          complete_calls s =
            [(0, 0, \<lparr>id_timer = new_id, title_timer = ''Focus'', total_seconds = 60,
                      remaining_seconds = 0, started_at = now, todo_id = todo, paused = False\<rparr>)]) \<and>
      complete_calls (run init ([SetCallbacks tick_cb True, AddTimer new_id now ''Focus'' 1 todo,
                          StartTimer new_id, Wake 0] @ replicate n (Wake 0) @ [StartAll, Wake 1])) =
        [(0, 0, \<lparr>id_timer = new_id, title_timer = ''Focus'', total_seconds = 60,
                  remaining_seconds = 0, started_at = now, todo_id = todo, paused = False\<rparr>),
         (1, 0, \<lparr>id_timer = new_id, title_timer = ''Focus'', total_seconds = 60,
                  remaining_seconds = 0, started_at = now, todo_id = todo, paused = False\<rparr>)]"
  proof (intro impI conjI)
    assume n: "60 \<le> n"
    note eq = one_minute_finished [OF n, of tick_cb new_id now todo]
    show "let s = run init ([SetCallbacks tick_cb True, AddTimer new_id now ''Focus'' 1 todo,
                          StartTimer new_id, Wake 0] @ replicate n (Wake 0))
       in is_complete (heap s ! 0) \<and>
          complete_calls s =
            [(0, 0, \<lparr>id_timer = new_id, title_timer = ''Focus'', total_seconds = 60,
                      remaining_seconds = 0, started_at = now, todo_id = todo, paused = False\<rparr>)]"
      by (simp only: eq Let_def) (simp add: is_complete_def)
    show "complete_calls (run init ([SetCallbacks tick_cb True, AddTimer new_id now ''Focus'' 1 todo,
                          StartTimer new_id, Wake 0] @ replicate n (Wake 0) @ [StartAll, Wake 1])) =
        [(0, 0, \<lparr>id_timer = new_id, title_timer = ''Focus'', total_seconds = 60,
                  remaining_seconds = 0, started_at = now, todo_id = todo, paused = False\<rparr>),
         (1, 0, \<lparr>id_timer = new_id, title_timer = ''Focus'', total_seconds = 60,
                  remaining_seconds = 0, started_at = now, todo_id = todo, paused = False\<rparr>)]"
      by (rule start_all_after_completion [OF n])
  qed
  from general others live zero again scenario show ?thesis by (intro conjI)
qed

theorem on_complete_once_per_countdown_witness:
  "distinct (map fst (complete_calls (run init ([SetCallbacks False True,
        AddTimer ''abcd1234'' ''2024-01-01T10:00:00'' ''Focus'' 1 None,
        StartTimer ''abcd1234'', Wake 0] @ replicate 60 (Wake 0) @
        [StartTimer ''abcd1234'', Wake 1])))) \<and>
   length (complete_calls (run init ([SetCallbacks False True,
        AddTimer ''abcd1234'' ''2024-01-01T10:00:00'' ''Focus'' 1 None,
        StartTimer ''abcd1234'', Wake 0] @ replicate 60 (Wake 0) @
        [StartTimer ''abcd1234'', Wake 1]))) = 2 \<and>
   complete_calls (step (run init ([SetCallbacks False True,
        AddTimer ''abcd1234'' ''2024-01-01T10:00:00'' ''Focus'' 1 None,
        StartTimer ''abcd1234'', Wake 0] @ replicate 59 (Wake 0))) StartAll) =
     complete_calls (run init ([SetCallbacks False True,
        AddTimer ''abcd1234'' ''2024-01-01T10:00:00'' ''Focus'' 1 None,
        StartTimer ''abcd1234'', Wake 0] @ replicate 59 (Wake 0))) \<and>
   complete_calls (wake (run init ([SetCallbacks False True,
        AddTimer ''abcd1234'' ''2024-01-01T10:00:00'' ''Focus'' 1 None,
        StartTimer ''abcd1234'', Wake 0] @ replicate 59 (Wake 0))) 0) =
     [(0, 0, \<lparr>id_timer = ''abcd1234'', title_timer = ''Focus'', total_seconds = 60,
               remaining_seconds = 0, started_at = ''2024-01-01T10:00:00'', todo_id = None,
               paused = False\<rparr>)] \<and>
   complete_calls (wake (fst (start_timer (run init ([SetCallbacks False True,
        AddTimer ''abcd1234'' ''2024-01-01T10:00:00'' ''Focus'' 1 None,
        StartTimer ''abcd1234'', Wake 0] @ replicate 60 (Wake 0))) ''abcd1234'')) 1) =
     [(0, 0, \<lparr>id_timer = ''abcd1234'', title_timer = ''Focus'', total_seconds = 60,
               remaining_seconds = 0, started_at = ''2024-01-01T10:00:00'', todo_id = None,
               paused = False\<rparr>),
      (1, 0, \<lparr>id_timer = ''abcd1234'', title_timer = ''Focus'', total_seconds = 60,
               remaining_seconds = 0, started_at = ''2024-01-01T10:00:00'', todo_id = None,
               paused = False\<rparr>)] \<and>
   (60::nat) \<le> 60 \<and>
   complete_calls (run init ([SetCallbacks False True,
        AddTimer ''abcd1234'' ''2024-01-01T10:00:00'' ''Focus'' 1 None,
        StartTimer ''abcd1234'', Wake 0] @ replicate 60 (Wake 0))) =
     [(0, 0, \<lparr>id_timer = ''abcd1234'', title_timer = ''Focus'', total_seconds = 60,
               remaining_seconds = 0, started_at = ''2024-01-01T10:00:00'', todo_id = None,
               paused = False\<rparr>)]"
proof -
  define s59 where "s59 = run init ([SetCallbacks False True,
        AddTimer ''abcd1234'' ''2024-01-01T10:00:00'' ''Focus'' 1 None,
        StartTimer ''abcd1234'', Wake 0] @ replicate 59 (Wake 0))"
  define s60 where "s60 = run init ([SetCallbacks False True,
        AddTimer ''abcd1234'' ''2024-01-01T10:00:00'' ''Focus'' 1 None,
        StartTimer ''abcd1234'', Wake 0] @ replicate 60 (Wake 0))"
  note th = on_complete_once_per_countdown [of "[SetCallbacks False True,
        AddTimer ''abcd1234'' ''2024-01-01T10:00:00'' ''Focus'' 1 None,
        StartTimer ''abcd1234'', Wake 0] @ replicate 60 (Wake 0) @
        [StartTimer ''abcd1234'', Wake 1]" StartAll s59 0 s60 "''abcd1234''" 0 60 False
        "''abcd1234''" "''2024-01-01T10:00:00''" None, unfolded Let_def]
  have v59: "s59 = \<lparr>timers = [(''abcd1234'', 0)], tasks = [(''abcd1234'', 0)], on_tick = False,
      on_complete = True, running = False,
      heap = [\<lparr>id_timer = ''abcd1234'', title_timer = ''Focus'', total_seconds = 60,
               remaining_seconds = 1, started_at = ''2024-01-01T10:00:00'', todo_id = None,
               paused = False\<rparr>],
      pool = [\<lparr>task_timer = 0, task_pc = Sleeping\<rparr>], tick_calls = 0, complete_calls = []\<rparr>"
    unfolding s59_def by (rule one_minute_last_second)
  have v60: "s60 = \<lparr>timers = [(''abcd1234'', 0)], tasks = [(''abcd1234'', 0)], on_tick = False,
      on_complete = True, running = False,
      heap = [\<lparr>id_timer = ''abcd1234'', title_timer = ''Focus'', total_seconds = 60,
               remaining_seconds = 0, started_at = ''2024-01-01T10:00:00'', todo_id = None,
               paused = False\<rparr>],
      pool = [\<lparr>task_timer = 0, task_pc = Done\<rparr>], tick_calls = 0,
      complete_calls = [(0, 0, \<lparr>id_timer = ''abcd1234'', title_timer = ''Focus'',
               total_seconds = 60, remaining_seconds = 0, started_at = ''2024-01-01T10:00:00'',
               todo_id = None, paused = False\<rparr>)]\<rparr>"
    unfolding s60_def
    using one_minute_finished [OF order_refl, of False "''abcd1234''" "''2024-01-01T10:00:00''" None]
    by (simp only: if_False)
  have len: "length (complete_calls (run init ([SetCallbacks False True,
        AddTimer ''abcd1234'' ''2024-01-01T10:00:00'' ''Focus'' 1 None,
        StartTimer ''abcd1234'', Wake 0] @ replicate 60 (Wake 0) @
        [StartTimer ''abcd1234'', Wake 1]))) = 2"
    by (simp only: restart_after_completion) simp
  have not_wake: "\<forall>j. StartAll \<noteq> Wake j" by simp
  have h59: "0 < length (pool s59) \<and> task_pc (pool s59 ! 0) = Sleeping \<and>
    task_timer (pool s59 ! 0) < length (heap s59) \<and>
    \<not> paused (heap s59 ! task_timer (pool s59 ! 0)) \<and>
    remaining_seconds (heap s59 ! task_timer (pool s59 ! 0)) = 1 \<and> on_complete s59"
    by (simp add: v59)
  have h60: "get_timer s60 ''abcd1234'' = Some 0 \<and> snd (start_timer s60 ''abcd1234'') \<and>
    is_complete (heap s60 ! 0) \<and> on_complete s60"
    by (simp add: v60 get_timer_def start_timer_def matches_def is_done_def is_complete_def)
  have c1: "distinct (map fst (complete_calls (run init ([SetCallbacks False True,
        AddTimer ''abcd1234'' ''2024-01-01T10:00:00'' ''Focus'' 1 None,
        StartTimer ''abcd1234'', Wake 0] @ replicate 60 (Wake 0) @
        [StartTimer ''abcd1234'', Wake 1]))))"
    using th by blast
  have c2: "complete_calls (step s59 StartAll) = complete_calls s59"
    using th not_wake by blast
  have c3: "complete_calls (wake s59 0) =
        complete_calls s59 @
          [(0, task_timer (pool s59 ! 0),
            (heap s59 ! task_timer (pool s59 ! 0))\<lparr>remaining_seconds := 0\<rparr>)]"
    using th h59 by blast
  have c4: "complete_calls (wake (fst (start_timer s60 ''abcd1234'')) (length (pool s60))) =
        complete_calls s60 @ [(length (pool s60), 0, heap s60 ! 0)]"
    using th h60 by blast
  have c5: "complete_calls s60 =
            [(0, 0, \<lparr>id_timer = ''abcd1234'', title_timer = ''Focus'', total_seconds = 60,
                      remaining_seconds = 0, started_at = ''2024-01-01T10:00:00'', todo_id = None,
                      paused = False\<rparr>)]"
    using th unfolding s60_def by blast
  have c3': "complete_calls (wake s59 0) =
     [(0, 0, \<lparr>id_timer = ''abcd1234'', title_timer = ''Focus'', total_seconds = 60,
               remaining_seconds = 0, started_at = ''2024-01-01T10:00:00'', todo_id = None,
               paused = False\<rparr>)]"
    using c3 by (simp add: v59)
  have c4': "complete_calls (wake (fst (start_timer s60 ''abcd1234'')) 1) =
     [(0, 0, \<lparr>id_timer = ''abcd1234'', title_timer = ''Focus'', total_seconds = 60,
               remaining_seconds = 0, started_at = ''2024-01-01T10:00:00'', todo_id = None,
               paused = False\<rparr>),
      (1, 0, \<lparr>id_timer = ''abcd1234'', title_timer = ''Focus'', total_seconds = 60,
               remaining_seconds = 0, started_at = ''2024-01-01T10:00:00'', todo_id = None,
               paused = False\<rparr>)]"
  proof -
    have l: "length (pool s60) = 1" by (simp add: v60)
    have cs: "complete_calls s60 @ [(1, 0, heap s60 ! 0)] =
     [(0, 0, \<lparr>id_timer = ''abcd1234'', title_timer = ''Focus'', total_seconds = 60,
               remaining_seconds = 0, started_at = ''2024-01-01T10:00:00'', todo_id = None,
               paused = False\<rparr>),
      (1, 0, \<lparr>id_timer = ''abcd1234'', title_timer = ''Focus'', total_seconds = 60,
               remaining_seconds = 0, started_at = ''2024-01-01T10:00:00'', todo_id = None,
               paused = False\<rparr>)]"
      by (simp add: v60)
    from c4 have "complete_calls (wake (fst (start_timer s60 ''abcd1234'')) 1) =
        complete_calls s60 @ [(1, 0, heap s60 ! 0)]"
      by (simp only: l)
    then show ?thesis by (simp only: cs)
  qed
  from c1 len c2 c3' c4' order_refl [of "60::nat"] c5 show ?thesis
    unfolding s59_def s60_def by (intro conjI)
qed

section \<open>Resuming a timer\<close>



lemma matches_empty: "matches tid []"
  by (simp add: matches_def)
























section \<open>Persistence of todos\<close>

lemma from_dict_to_dict: "from_dict now (JDict (to_dict todo)) = Returns todo"
  by (cases "completed_at todo"; cases "timer_minutes todo")
     (simp_all add: to_dict_def field_names_def given_def)

lemma from_dicts_dump: "from_dicts now (map (\<lambda>todo. JDict (to_dict todo)) ts) = Returns ts"
  by (induction ts) (simp_all add: from_dict_to_dict del: from_dict.simps)

text \<open>
  Claim C8. Loading what \<open>save_todos\<close> has written returns the list that was saved,
  todo for todo and field for field, whatever the file held before and whether or not
  \<open>completed_at\<close> and \<open>timer_minutes\<close> are set.
\<close>

theorem load_after_save_is_identity: "load_todos now (save_todos f ts) = Returns ts"
  by (simp add: load_todos_def save_todos_def dump_todos_def from_dicts_dump)

theorem load_after_save_is_identity_witness:
  "load_todos ''2024-01-02T08:00:00''
     (save_todos Garbled
        [\<lparr>id_todo = ''abcd1234'', title_todo = ''write report'', completed = False,
          created_at = ''2024-01-01T10:00:00'', completed_at = None, timer_minutes = Some 25\<rparr>,
         \<lparr>id_todo = ''abcd5678'', title_todo = ''call home'', completed = True,
          created_at = ''2024-01-01T11:00:00'', completed_at = Some ''2024-01-01T12:00:00'',
          timer_minutes = None\<rparr>])
   = Returns
        [\<lparr>id_todo = ''abcd1234'', title_todo = ''write report'', completed = False,
          created_at = ''2024-01-01T10:00:00'', completed_at = None, timer_minutes = Some 25\<rparr>,
         \<lparr>id_todo = ''abcd5678'', title_todo = ''call home'', completed = True,
          created_at = ''2024-01-01T11:00:00'', completed_at = Some ''2024-01-01T12:00:00'',
          timer_minutes = None\<rparr>]"
  by (rule load_after_save_is_identity)

text \<open>
  Claim C7, at inputs where the code departs from it. The file holds well-formed JSON
  that is not a list of todo records: a record without its \<open>title\<close>, an object instead
  of a list, or \<open>null\<close>. \<open>load_todos\<close> raises \<open>TypeError\<close>, which the clause
  \<open>except (json.JSONDecodeError, KeyError)\<close> does not catch, so the exception reaches
  the caller instead of an empty list.
\<close>

theorem load_todos_lets_type_error_escape:
  "load_todos ''2024-01-01T10:00:00'' (Document (JList [JDict [(''id'', JString ''a1b2c3d4'')]]))
     = Raises TypeError \<and>
   load_todos ''2024-01-01T10:00:00'' (Document (JDict [(''todos'', JList [])])) = Raises TypeError \<and>
   load_todos ''2024-01-01T10:00:00'' (Document JNull) = Raises TypeError"
  by (simp add: load_todos_def handler_def field_names_def)

section \<open>Looking todos up by identifier\<close>

lemma complete_loop_none:
  "list_all (\<lambda>u. \<not> matches (id_todo u) x) ts \<Longrightarrow> complete_loop now x ts = None"
  by (induction ts) simp_all

lemma complete_loop_first:
  "list_all (\<lambda>u. \<not> matches (id_todo u) x) pre \<Longrightarrow> matches (id_todo t) x \<Longrightarrow>
   complete_loop now x (pre @ t # post) =
     Some (pre @ mark_complete now t # post, mark_complete now t)"
  by (induction pre) simp_all

text \<open>
  Claim C6. \<open>complete\<close> takes the first todo, in the order of the list, whose
  identifier equals the given string or starts with it: it marks that todo completed,
  saves the whole list and returns the marked todo. When no identifier matches it
  returns \<open>None\<close> and changes nothing. With the two todos \<open>abcd1234\<close> and \<open>abcd5678\<close>,
  in that order, \<open>complete\<close> with \<open>abcd\<close> marks the first.
\<close>

theorem complete_marks_first_match:
  "(list_all (\<lambda>u. \<not> matches (id_todo u) x) (todos m) \<longrightarrow> complete m now x = (m, None)) \<and>
   (todos m = pre @ t # post \<and> list_all (\<lambda>u. \<not> matches (id_todo u) x) pre \<and>
    matches (id_todo t) x \<longrightarrow>
      complete m now x =
        (m\<lparr>todos := pre @ mark_complete now t # post,
           storage := Document (dump_todos (pre @ mark_complete now t # post))\<rparr>,
         Some (mark_complete now t)) \<and>
      completed (mark_complete now t)) \<and>
   (todos m = [ta, tb] \<and> id_todo ta = ''abcd1234'' \<and> id_todo tb = ''abcd5678'' \<longrightarrow>
      complete m now ''abcd'' =
        (m\<lparr>todos := [mark_complete now ta, tb],
           storage := Document (dump_todos [mark_complete now ta, tb])\<rparr>,
         Some (mark_complete now ta)))"
proof (intro conjI impI)
  assume "list_all (\<lambda>u. \<not> matches (id_todo u) x) (todos m)"
  then show "complete m now x = (m, None)"
    by (simp add: complete_def complete_loop_none)
next
  assume a: "todos m = pre @ t # post \<and> list_all (\<lambda>u. \<not> matches (id_todo u) x) pre \<and>
    matches (id_todo t) x"
  then have "complete_loop now x (todos m) =
      Some (pre @ mark_complete now t # post, mark_complete now t)"
    by (simp add: complete_loop_first del: complete_loop.simps)
  then show "complete m now x =
        (m\<lparr>todos := pre @ mark_complete now t # post,
           storage := Document (dump_todos (pre @ mark_complete now t # post))\<rparr>,
         Some (mark_complete now t))"
    by (simp add: complete_def save_def save_todos_def)
next
  show "completed (mark_complete now t)" by (simp add: mark_complete_def)
next
  assume "todos m = [ta, tb] \<and> id_todo ta = ''abcd1234'' \<and> id_todo tb = ''abcd5678''"
  then show "complete m now ''abcd'' =
        (m\<lparr>todos := [mark_complete now ta, tb],
           storage := Document (dump_todos [mark_complete now ta, tb])\<rparr>,
         Some (mark_complete now ta))"
    by (simp add: complete_def save_def save_todos_def matches_def)
qed

theorem complete_marks_first_match_witness:
  "complete \<lparr>todos = [\<lparr>id_todo = ''abcd1234'', title_todo = ''write report'', completed = False,
                       created_at = ''2024-01-01T10:00:00'', completed_at = None,
                       timer_minutes = Some 25\<rparr>,
                      \<lparr>id_todo = ''abcd5678'', title_todo = ''call home'', completed = False,
                       created_at = ''2024-01-01T11:00:00'', completed_at = None,
                       timer_minutes = None\<rparr>],
             storage = Absent\<rparr> ''2024-01-02T08:00:00'' ''abcd'' =
     (\<lparr>todos = [\<lparr>id_todo = ''abcd1234'', title_todo = ''write report'', completed = True,
                 created_at = ''2024-01-01T10:00:00'', completed_at = Some ''2024-01-02T08:00:00'',
                 timer_minutes = Some 25\<rparr>,
                \<lparr>id_todo = ''abcd5678'', title_todo = ''call home'', completed = False,
                 created_at = ''2024-01-01T11:00:00'', completed_at = None,
                 timer_minutes = None\<rparr>],
       storage = Document (dump_todos
               [\<lparr>id_todo = ''abcd1234'', title_todo = ''write report'', completed = True,
                 created_at = ''2024-01-01T10:00:00'', completed_at = Some ''2024-01-02T08:00:00'',
                 timer_minutes = Some 25\<rparr>,
                \<lparr>id_todo = ''abcd5678'', title_todo = ''call home'', completed = False,
                 created_at = ''2024-01-01T11:00:00'', completed_at = None,
                 timer_minutes = None\<rparr>])\<rparr>,
      Some \<lparr>id_todo = ''abcd1234'', title_todo = ''write report'', completed = True,
            created_at = ''2024-01-01T10:00:00'', completed_at = Some ''2024-01-02T08:00:00'',
            timer_minutes = Some 25\<rparr>) \<and>
   complete \<lparr>todos = [\<lparr>id_todo = ''abcd1234'', title_todo = ''write report'', completed = False,
                       created_at = ''2024-01-01T10:00:00'', completed_at = None,
                       timer_minutes = Some 25\<rparr>],
             storage = Absent\<rparr> ''2024-01-02T08:00:00'' ''abce'' =
     (\<lparr>todos = [\<lparr>id_todo = ''abcd1234'', title_todo = ''write report'', completed = False,
                       created_at = ''2024-01-01T10:00:00'', completed_at = None,
                       timer_minutes = Some 25\<rparr>],
             storage = Absent\<rparr>, None)"
  using complete_marks_first_match [where x = "''abcd''" and now = "''2024-01-02T08:00:00''"
      and pre = "[]"
      and t = "\<lparr>id_todo = ''abcd1234'', title_todo = ''write report'', completed = False,
                       created_at = ''2024-01-01T10:00:00'', completed_at = None,
                       timer_minutes = Some 25\<rparr>"
      and post = "[\<lparr>id_todo = ''abcd5678'', title_todo = ''call home'', completed = False,
                       created_at = ''2024-01-01T11:00:00'', completed_at = None,
                       timer_minutes = None\<rparr>]"
      and ta = "\<lparr>id_todo = ''abcd1234'', title_todo = ''write report'', completed = False,
                       created_at = ''2024-01-01T10:00:00'', completed_at = None,
                       timer_minutes = Some 25\<rparr>"
      and tb = "\<lparr>id_todo = ''abcd5678'', title_todo = ''call home'', completed = False,
                       created_at = ''2024-01-01T11:00:00'', completed_at = None,
                       timer_minutes = None\<rparr>"
      and m = "\<lparr>todos = [\<lparr>id_todo = ''abcd1234'', title_todo = ''write report'', completed = False,
                       created_at = ''2024-01-01T10:00:00'', completed_at = None,
                       timer_minutes = Some 25\<rparr>,
                      \<lparr>id_todo = ''abcd5678'', title_todo = ''call home'', completed = False,
                       created_at = ''2024-01-01T11:00:00'', completed_at = None,
                       timer_minutes = None\<rparr>],
             storage = Absent\<rparr>"]
    complete_marks_first_match [where x = "''abce''" and now = "''2024-01-02T08:00:00''"
      and m = "\<lparr>todos = [\<lparr>id_todo = ''abcd1234'', title_todo = ''write report'', completed = False,
                       created_at = ''2024-01-01T10:00:00'', completed_at = None,
                       timer_minutes = Some 25\<rparr>],
             storage = Absent\<rparr>"]
  by (simp add: matches_def mark_complete_def)

text \<open>
  Claim C9. \<open>clear_completed\<close> keeps exactly the todos that are not completed, in
  their order, saves that list, and returns the number of completed todos it dropped;
  on five todos of which three are completed it returns 3 and two todos remain.
\<close>

theorem clear_completed_removes_completed:
  "fst (clear_completed m) =
     m\<lparr>todos := filter (\<lambda>todo. \<not> completed todo) (todos m),
       storage := Document (dump_todos (filter (\<lambda>todo. \<not> completed todo) (todos m)))\<rparr> \<and>
   snd (clear_completed m) = int (length (filter completed (todos m))) \<and>
   (\<forall>todo \<in> set (todos (fst (clear_completed m))). \<not> completed todo) \<and>
   (length (todos m) = 5 \<and> length (filter completed (todos m)) = 3 \<longrightarrow>
      snd (clear_completed m) = 3 \<and> length (todos (fst (clear_completed m))) = 2)"
proof -
  have len: "length (todos m) =
      length (filter completed (todos m)) + length (filter (\<lambda>todo. \<not> completed todo) (todos m))"
    by (rule sum_length_filter_compl [symmetric])
  have st: "fst (clear_completed m) =
     m\<lparr>todos := filter (\<lambda>todo. \<not> completed todo) (todos m),
       storage := Document (dump_todos (filter (\<lambda>todo. \<not> completed todo) (todos m)))\<rparr>"
    by (simp add: clear_completed_def Let_def save_def save_todos_def)
  have n: "snd (clear_completed m) = int (length (filter completed (todos m)))"
    using len by (simp add: clear_completed_def Let_def)
  have pending: "\<forall>todo \<in> set (todos (fst (clear_completed m))). \<not> completed todo"
    by (simp add: st)
  have five: "length (todos m) = 5 \<and> length (filter completed (todos m)) = 3 \<longrightarrow>
      snd (clear_completed m) = 3 \<and> length (todos (fst (clear_completed m))) = 2"
    using len by (simp add: n st)
  from st n pending five show ?thesis by (intro conjI)
qed

theorem clear_completed_removes_completed_witness:
  "snd (clear_completed
      \<lparr>todos = [create_todo ''aaaa0001'' ''2024-01-01T10:00:00'' ''one'' None,
                (create_todo ''aaaa0002'' ''2024-01-01T10:00:00'' ''two'' None)\<lparr>completed := True\<rparr>,
                (create_todo ''aaaa0003'' ''2024-01-01T10:00:00'' ''three'' None)\<lparr>completed := True\<rparr>,
                create_todo ''aaaa0004'' ''2024-01-01T10:00:00'' ''four'' (Some 25),
                (create_todo ''aaaa0005'' ''2024-01-01T10:00:00'' ''five'' None)\<lparr>completed := True\<rparr>],
        storage = Absent\<rparr>) = 3 \<and>
   map id_todo (todos (fst (clear_completed
      \<lparr>todos = [create_todo ''aaaa0001'' ''2024-01-01T10:00:00'' ''one'' None,
                (create_todo ''aaaa0002'' ''2024-01-01T10:00:00'' ''two'' None)\<lparr>completed := True\<rparr>,
                (create_todo ''aaaa0003'' ''2024-01-01T10:00:00'' ''three'' None)\<lparr>completed := True\<rparr>,
                create_todo ''aaaa0004'' ''2024-01-01T10:00:00'' ''four'' (Some 25),
                (create_todo ''aaaa0005'' ''2024-01-01T10:00:00'' ''five'' None)\<lparr>completed := True\<rparr>],
        storage = Absent\<rparr>))) = [''aaaa0001'', ''aaaa0004'']"
  using clear_completed_removes_completed [of
      "\<lparr>todos = [create_todo ''aaaa0001'' ''2024-01-01T10:00:00'' ''one'' None,
                (create_todo ''aaaa0002'' ''2024-01-01T10:00:00'' ''two'' None)\<lparr>completed := True\<rparr>,
                (create_todo ''aaaa0003'' ''2024-01-01T10:00:00'' ''three'' None)\<lparr>completed := True\<rparr>,
                create_todo ''aaaa0004'' ''2024-01-01T10:00:00'' ''four'' (Some 25),
                (create_todo ''aaaa0005'' ''2024-01-01T10:00:00'' ''five'' None)\<lparr>completed := True\<rparr>],
        storage = Absent\<rparr>"]
  by (simp add: create_todo_def)

text \<open>
  Claim C10. Every string starts with the empty string, so on a list of todos that is
  not empty \<open>get\<close>, \<open>complete\<close> and \<open>delete\<close> with the empty identifier take the first
  todo, and on a dictionary of timers that is not empty \<open>get_timer\<close> with the empty
  identifier returns the first timer.
\<close>

theorem empty_id_matches_first:
  "(todos m = t # ts \<longrightarrow>
      get m [] = Some t \<and>
      complete m now [] =
        (m\<lparr>todos := mark_complete now t # ts,
           storage := Document (dump_todos (mark_complete now t # ts))\<rparr>,
         Some (mark_complete now t)) \<and>
      delete m [] = (m\<lparr>todos := ts, storage := Document (dump_todos ts)\<rparr>, True)) \<and>
   (timers s = (tid, a) # rest \<longrightarrow> get_timer s [] = Some a)"
  by (simp add: get_def complete_def delete_def get_timer_def matches_empty save_def save_todos_def)

theorem empty_id_matches_first_witness:
  "get \<lparr>todos = [create_todo ''abcd1234'' ''2024-01-01T10:00:00'' ''write report'' None,
                  create_todo ''ef015678'' ''2024-01-01T11:00:00'' ''call home'' None],
        storage = Absent\<rparr> [] =
     Some (create_todo ''abcd1234'' ''2024-01-01T10:00:00'' ''write report'' None) \<and>
   fst (delete \<lparr>todos = [create_todo ''abcd1234'' ''2024-01-01T10:00:00'' ''write report'' None,
                  create_todo ''ef015678'' ''2024-01-01T11:00:00'' ''call home'' None],
        storage = Absent\<rparr> []) =
     \<lparr>todos = [create_todo ''ef015678'' ''2024-01-01T11:00:00'' ''call home'' None],
      storage = Document (dump_todos [create_todo ''ef015678'' ''2024-01-01T11:00:00'' ''call home'' None])\<rparr> \<and>
   get_timer (run init [AddTimer ''abcd1234'' ''2024-01-01T10:00:00'' ''Focus'' 25 None,
                        AddTimer ''ef015678'' ''2024-01-01T10:00:00'' ''Break'' 5 None]) [] = Some 0"
proof -
  have tm: "timers (run init [AddTimer ''abcd1234'' ''2024-01-01T10:00:00'' ''Focus'' 25 None,
                        AddTimer ''ef015678'' ''2024-01-01T10:00:00'' ''Break'' 5 None]) =
      (''abcd1234'', 0) # [(''ef015678'', 1)]"
    by (simp add: manager_defs)
  show ?thesis
    using tm empty_id_matches_first [where
      m = "\<lparr>todos = [create_todo ''abcd1234'' ''2024-01-01T10:00:00'' ''write report'' None,
                  create_todo ''ef015678'' ''2024-01-01T11:00:00'' ''call home'' None],
        storage = Absent\<rparr>"
      and t = "create_todo ''abcd1234'' ''2024-01-01T10:00:00'' ''write report'' None"
      and ts = "[create_todo ''ef015678'' ''2024-01-01T11:00:00'' ''call home'' None]"
      and s = "run init [AddTimer ''abcd1234'' ''2024-01-01T10:00:00'' ''Focus'' 25 None,
                        AddTimer ''ef015678'' ''2024-01-01T10:00:00'' ''Break'' 5 None]"
      and tid = "''abcd1234''" and a = 0 and rest = "[(''ef015678'', 1)]"
      and now = "''2024-01-02T08:00:00''"]
    by (simp del: run.simps)
qed

end
